theory Spec2Isabelle
  imports Main
begin

section \<open>Python values and coercions\<close>

text \<open>
  Request bodies are decoded JSON objects. The values modelled are \<open>null\<close>, integers and
  strings; booleans, floats, lists and nested objects are outside the model.
\<close>

datatype pyval = PNone | PInt int | PStr string

text \<open>
  Whitespace as \<open>str.strip()\<close> and \<open>int()\<close> see it, a character standing for the code
  point of its number (code points above 255 are outside the model).
\<close>

definition py_isspace :: "char \<Rightarrow> bool" where
  "py_isspace c =
     (let n = (of_char c :: nat)
      in (9 \<le> n \<and> n \<le> 13) \<or> (28 \<le> n \<and> n \<le> 32) \<or> n = 133 \<or> n = 160)"

definition py_strip :: "string \<Rightarrow> string" where
  "py_strip s = rev (dropWhile py_isspace (rev (dropWhile py_isspace s)))"

definition py_digit :: "char \<Rightarrow> nat option" where
  "py_digit c =
     (let n = (of_char c :: nat) in if 48 \<le> n \<and> n \<le> 57 then Some (n - 48) else None)"

text \<open>
  The digits of \<open>int(s)\<close>, read after the first digit: a single underscore may stand
  between two digits.
\<close>

fun py_digits :: "nat \<Rightarrow> string \<Rightarrow> nat option" where
  "py_digits acc [] = Some acc"
| "py_digits acc [c] =
     (case py_digit c of None \<Rightarrow> None | Some v \<Rightarrow> Some (10 * acc + v))"
| "py_digits acc (c # d # ds) =
     (if c = CHR ''_''
      then (case py_digit d of None \<Rightarrow> None | Some v \<Rightarrow> py_digits (10 * acc + v) ds)
      else (case py_digit c of None \<Rightarrow> None | Some v \<Rightarrow> py_digits (10 * acc + v) (d # ds)))"

text \<open>
  \<open>int()\<close> refuses a string of more than 4300 digits (the default limit of CPython 3.11
  and later).
\<close>

definition py_max_str_digits :: nat where
  "py_max_str_digits = 4300"

definition py_unsigned :: "string \<Rightarrow> nat option" where
  "py_unsigned s =
     (if py_max_str_digits < length (filter (\<lambda>c. py_digit c \<noteq> None) s) then None
      else (case s of [] \<Rightarrow> None
            | c # cs \<Rightarrow> (case py_digit c of None \<Rightarrow> None | Some v \<Rightarrow> py_digits v cs)))"

text \<open>\<open>int(s)\<close> for a string: \<open>None\<close> where Python raises \<open>ValueError\<close>.\<close>

definition py_int_of_str :: "string \<Rightarrow> int option" where
  "py_int_of_str s =
     (case py_strip s of [] \<Rightarrow> None
      | c # cs \<Rightarrow>
          if c = CHR ''-'' then map_option (\<lambda>n. - int n) (py_unsigned cs)
          else if c = CHR ''+'' then map_option int (py_unsigned cs)
          else map_option int (py_unsigned (c # cs)))"

fun py_str_nat :: "nat \<Rightarrow> string" where
  "py_str_nat n =
     (if n < 10 then [char_of (48 + n)]
      else py_str_nat (n div 10) @ [char_of (48 + n mod 10)])"

text \<open>\<open>str(n)\<close> for an integer.\<close>

definition py_str_int :: "int \<Rightarrow> string" where
  "py_str_int n = (if n < 0 then CHR ''-'' # py_str_nat (nat (- n)) else py_str_nat (nat n))"

text \<open>
  The coercion Django applies to a value compared with an integer column
  (\<open>IntegerField.get_prep_value\<close>): \<open>None\<close> stays \<open>None\<close> (an \<open>IS NULL\<close> test),
  anything else goes through \<open>int()\<close>, whose \<open>ValueError\<close> is the left injection.
\<close>

datatype error =
    Http404
  | NotAuthenticated
  | AuthenticationFailed
  | ValidationError "string list"
  | IntegrityError
  | ValueError
  | TokenError string
  | AttributeError string

definition get_prep_value :: "pyval \<Rightarrow> error + int option" where
  "get_prep_value v =
     (case v of
        PNone \<Rightarrow> Inr None
      | PInt n \<Rightarrow> Inr (Some n)
      | PStr s \<Rightarrow> (case py_int_of_str s of None \<Rightarrow> Inl ValueError | Some n \<Rightarrow> Inr (Some n)))"

section \<open>The models of \<open>register/models.py\<close>\<close>

text \<open>
  Every model has the automatic integer primary key \<open>id\<close>. Foreign keys hold the
  primary key of the row they point to; a \<open>DateTimeField\<close> holds a point in time as an
  integer. Integers are unbounded: the 64-bit range of the database columns is not
  modelled. Of \<open>AbstractUser\<close> the username and the password are kept; its other
  columns (names, e-mail, flags, dates, groups), which the user serializer also reads
  from a body that carries them, are outside the model.
\<close>

record CustomUser =
  u_id :: int
  u_username :: string
  u_password :: string
  u_phone :: string

record Blog =
  b_id :: int
  b_title :: string
  b_description :: string
  b_author :: int
  b_publish_date :: int
  b_image :: "string option"

record Like =
  l_id :: int
  l_user :: int
  l_post :: int
  l_time :: int

record Comment =
  c_id :: int
  c_user :: int
  c_post :: int
  c_comment :: string
  c_time :: int

text \<open>
  The database: one list of rows per table, the last primary key handed out per table,
  and the \<open>jti\<close> claims of the blacklisted refresh tokens.
\<close>

record db =
  users :: "CustomUser list"
  blogs :: "Blog list"
  likes :: "Like list"
  comments :: "Comment list"
  user_seq :: int
  blog_seq :: int
  like_seq :: int
  comment_seq :: int
  blacklisted :: "string list"

definition empty_db :: db where
  "empty_db = \<lparr>users = [], blogs = [], likes = [], comments = [],
     user_seq = 0, blog_seq = 0, like_seq = 0, comment_seq = 0, blacklisted = []\<rparr>"

section \<open>Requests and responses\<close>

text \<open>
  A request carries the user id proved by its access token (\<open>None\<close> for an anonymous
  request), the decoded body \<open>request.data\<close>, the time at which it is served and the
  random identifiers that the tokens generated while serving it receive (\<open>uuid req k\<close>
  is the identifier of the \<open>k\<close>-th such token).
\<close>

record request =
  auth :: "int option"
  data :: "string \<rightharpoonup> pyval"
  now :: int
  uuid :: "nat \<Rightarrow> string"

datatype body =
    Message string
  | Error string
  | Detail string
  | FieldErrors "string list"
  | UserData int string string
  | Tokens string string int string
  | BlogData Blog
  | LikeData Like
  | CommentData Comment
  | LikeRows "Like list"
  | CommentRows "Comment list"
  | NoContent

datatype response = Response body nat

fun status_code :: "response \<Rightarrow> nat" where
  "status_code (Response b n) = n"

text \<open>
  The framework's exception handler: the API exceptions become their status code, any
  other exception leaves the view as a server error.
\<close>

fun handle_exception :: "error \<Rightarrow> response" where
  "handle_exception Http404 = Response (Detail ''Not found.'') 404"
| "handle_exception NotAuthenticated =
     Response (Detail ''Authentication credentials were not provided.'') 401"
| "handle_exception AuthenticationFailed = Response (Detail ''User not found'') 401"
| "handle_exception (ValidationError fs) = Response (FieldErrors fs) 400"
| "handle_exception IntegrityError = Response (Detail ''Server Error (500)'') 500"
| "handle_exception ValueError = Response (Detail ''Server Error (500)'') 500"
| "handle_exception (TokenError m) = Response (Detail ''Server Error (500)'') 500"
| "handle_exception (AttributeError m) = Response (Detail ''Server Error (500)'') 500"

datatype permission = AllowAny | IsAuthenticated

text \<open>
  Modelled from the spec: the project's settings, which choose the authentication class
  of the REST framework, are not among the sources; the spec has a bearer access token
  in the \<open>Authorization\<close> header, and status 401 for a missing or invalid token.
  \<open>request.user\<close>: the token authentication looks the token's user up, and rejects
  the request when that user is gone; without a token the caller is anonymous.
\<close>

definition request_user :: "db \<Rightarrow> request \<Rightarrow> error + int option" where
  "request_user s req =
     (case auth req of
        None \<Rightarrow> Inr None
      | Some uid \<Rightarrow> if uid \<in> set (map u_id (users s)) then Inr (Some uid)
                    else Inl AuthenticationFailed)"

fun has_permission :: "permission \<Rightarrow> int option \<Rightarrow> bool" where
  "has_permission AllowAny u = True"
| "has_permission IsAuthenticated u = (u \<noteq> None)"

text \<open>
  \<open>APIView.initial\<close>: authentication, then the permission check. The result is the
  caller the view body runs for (\<open>None\<close> when an anonymous caller is allowed).
\<close>

definition initial :: "permission \<Rightarrow> db \<Rightarrow> request \<Rightarrow> error + int option" where
  "initial p s req =
     (case request_user s req of
        Inl e \<Rightarrow> Inl e
      | Inr u \<Rightarrow> if has_permission p u then Inr u else Inl NotAuthenticated)"

text \<open>
  \<open>get_object\<close>: the row of the table whose primary key is the one in the URL, or
  \<open>Http404\<close>.
\<close>

definition get_object :: "('a \<Rightarrow> int) \<Rightarrow> 'a list \<Rightarrow> int \<Rightarrow> error + 'a" where
  "get_object key rows pk =
     (case find (\<lambda>r. key r = pk) rows of None \<Rightarrow> Inl Http404 | Some r \<Rightarrow> Inr r)"

section \<open>The object-relational mapper\<close>

text \<open>
  The uniqueness constraints of the models (\<open>unique=True\<close>, \<open>unique_together\<close>) are
  checked by the database at every insert and update, which fail with
  \<open>IntegrityError\<close>. Every foreign key written by a view has been resolved to an
  existing row just before (by the authentication, by \<open>get_object\<close> or by the
  serializer's related field), so the foreign-key check of the database is not modelled.

  \<open>Like.objects.create(user=u, post=p)\<close>: \<open>auto_now\<close> stamps the row with the current
  time.
\<close>

definition Like_exists :: "db \<Rightarrow> int \<Rightarrow> int \<Rightarrow> bool" where
  "Like_exists s u p = (\<exists>l \<in> set (likes s). l_user l = u \<and> l_post l = p)"

definition Like_objects_create :: "db \<Rightarrow> int \<Rightarrow> int \<Rightarrow> int \<Rightarrow> error + (Like \<times> db)" where
  "Like_objects_create s u p t =
     (if Like_exists s u p then Inl IntegrityError
      else (let l = \<lparr>l_id = like_seq s + 1, l_user = u, l_post = p, l_time = t\<rparr>
            in Inr (l, s\<lparr>likes := likes s @ [l], like_seq := like_seq s + 1\<rparr>)))"

text \<open>\<open>Like.objects.filter(user=u, post=p).delete()\<close>.\<close>

definition Like_filter_delete :: "db \<Rightarrow> int \<Rightarrow> int \<Rightarrow> db" where
  "Like_filter_delete s u p =
     s\<lparr>likes := filter (\<lambda>l. \<not> (l_user l = u \<and> l_post l = p)) (likes s)\<rparr>"

text \<open>
  A view runs after \<open>initial\<close>; an exception that leaves it goes to the exception
  handler, and the database is as the last completed write left it. \<open>run\<close> is this
  wrapper, for a view body that needs an authenticated caller.
\<close>

definition run ::
  "permission \<Rightarrow> db \<Rightarrow> request \<Rightarrow> (int \<Rightarrow> error + (response \<times> db)) \<Rightarrow> response \<times> db" where
  "run p s req view =
     (case initial p s req of
        Inl e \<Rightarrow> (handle_exception e, s)
      | Inr None \<Rightarrow> (handle_exception NotAuthenticated, s)
      | Inr (Some user) \<Rightarrow>
          (case view user of Inl e \<Rightarrow> (handle_exception e, s) | Inr rs \<Rightarrow> rs))"

section \<open>\<open>BlogViews\<close>\<close>

definition BlogViews_get_permissions :: "string \<Rightarrow> permission" where
  "BlogViews_get_permissions action =
     (if action = ''list'' \<or> action = ''retrieve'' then AllowAny else IsAuthenticated)"

definition BlogViews_like :: "db \<Rightarrow> request \<Rightarrow> int \<Rightarrow> response \<times> db" where
  "BlogViews_like s req pk =
     run (BlogViews_get_permissions ''like'') s req (\<lambda>user.
       case get_object b_id (blogs s) pk of
         Inl e \<Rightarrow> Inl e
       | Inr blog \<Rightarrow>
           if Like_exists s user (b_id blog)
           then Inr (Response (Message ''Like removed'') 200,
                     Like_filter_delete s user (b_id blog))
           else (case Like_objects_create s user (b_id blog) (now req) of
                   Inl e \<Rightarrow> Inl e
                 | Inr (l, s') \<Rightarrow> Inr (Response (Message ''Post liked'') 201, s')))"

text \<open>
  The rows of a table stand in the order of their insertion: an insert appends, an
  update rewrites a row in place, a delete takes rows out. A queryset without
  \<open>order_by\<close>, over a model whose \<open>Meta\<close> declares no \<open>ordering\<close>, yields the
  selected rows in the order of the table.

  The \<open>comments\<close> and \<open>likes\<close> actions: they read the database and write nothing.
\<close>

definition BlogViews_comments :: "db \<Rightarrow> request \<Rightarrow> int \<Rightarrow> response" where
  "BlogViews_comments s req pk =
     (case initial (BlogViews_get_permissions ''comments'') s req of
        Inl e \<Rightarrow> handle_exception e
      | Inr u \<Rightarrow>
          (case get_object b_id (blogs s) pk of
             Inl e \<Rightarrow> handle_exception e
           | Inr blog \<Rightarrow>
               Response (CommentRows (filter (\<lambda>c. c_post c = b_id blog) (comments s))) 200))"

definition BlogViews_likes :: "db \<Rightarrow> request \<Rightarrow> int \<Rightarrow> response" where
  "BlogViews_likes s req pk =
     (case initial (BlogViews_get_permissions ''likes'') s req of
        Inl e \<Rightarrow> handle_exception e
      | Inr u \<Rightarrow>
          (case get_object b_id (blogs s) pk of
             Inl e \<Rightarrow> handle_exception e
           | Inr blog \<Rightarrow>
               Response (LikeRows (filter (\<lambda>l. l_post l = b_id blog) (likes s))) 200))"

section \<open>Serializer fields\<close>

text \<open>
  The outcome of one field of a serializer: left out of the validated data (absent in
  a partial update, or absent and not required), rejected with an error, or accepted
  with its internal value.
\<close>

datatype 'a field = Skipped | Rejected | Accepted 'a

text \<open>
  The serializer field of a model \<open>CharField\<close> (required, not null, not blank): the
  text of the value is stripped, must not be empty, must not exceed \<open>max_length\<close> and
  must not hold a null character.
\<close>

definition CharField_validate :: "nat option \<Rightarrow> string \<Rightarrow> string field" where
  "CharField_validate max_length raw =
     (let v = py_strip raw in
      if v = [] then Rejected
      else if (case max_length of None \<Rightarrow> False | Some n \<Rightarrow> n < length v) then Rejected
      else if (CHR 0x00) \<in> set v then Rejected
      else Accepted v)"

definition CharField :: "nat option \<Rightarrow> bool \<Rightarrow> pyval option \<Rightarrow> string field" where
  "CharField max_length partial d =
     (case d of
        None \<Rightarrow> if partial then Skipped else Rejected
      | Some PNone \<Rightarrow> Rejected
      | Some (PInt n) \<Rightarrow> CharField_validate max_length (py_str_int n)
      | Some (PStr t) \<Rightarrow> CharField_validate max_length t)"

text \<open>
  \<open>PrimaryKeyRelatedField\<close> over the rows whose keys are \<open>pks\<close> (required, not null):
  the value must coerce to the key of an existing row.
\<close>

definition PrimaryKeyRelatedField :: "int list \<Rightarrow> bool \<Rightarrow> pyval option \<Rightarrow> int field" where
  "PrimaryKeyRelatedField pks partial d =
     (case d of
        None \<Rightarrow> if partial then Skipped else Rejected
      | Some PNone \<Rightarrow> Rejected
      | Some (PInt n) \<Rightarrow> if n \<in> set pks then Accepted n else Rejected
      | Some (PStr t) \<Rightarrow>
          (case py_int_of_str t of
             None \<Rightarrow> Rejected
           | Some n \<Rightarrow> if n \<in> set pks then Accepted n else Rejected))"

text \<open>
  The field of the optional image (\<open>blank=True, null=True\<close>): without an uploaded
  file, only \<open>null\<close> is a valid value.
\<close>

definition ImageField :: "pyval option \<Rightarrow> string option field" where
  "ImageField d =
     (case d of None \<Rightarrow> Skipped | Some PNone \<Rightarrow> Accepted None | Some v \<Rightarrow> Rejected)"

definition errors_of :: "string \<Rightarrow> 'a field \<Rightarrow> string list" where
  "errors_of name f = (case f of Rejected \<Rightarrow> [name] | _ \<Rightarrow> [])"

definition value_of :: "'a field \<Rightarrow> 'a option" where
  "value_of f = (case f of Accepted v \<Rightarrow> Some v | _ \<Rightarrow> None)"

section \<open>The serializers of \<open>register/serializers.py\<close>\<close>

text \<open>
  With \<open>fields = "__all__"\<close> every column is a field of the serializer; the primary
  key and the \<open>auto_now\<close> timestamps are read-only, every other column is writable.
  Validated data is the dictionary of the accepted fields: a key that is absent is
  \<open>None\<close> here. The fields come in the order of the serializer: the declared fields,
  the plain columns, then the foreign keys.
\<close>

record CommentAttrs =
  ca_comment :: "string option"
  ca_user :: "int option"
  ca_post :: "int option"

definition CommentSerializer_is_valid ::
  "db \<Rightarrow> bool \<Rightarrow> (string \<rightharpoonup> pyval) \<Rightarrow> error + CommentAttrs" where
  "CommentSerializer_is_valid s partial d =
     (let fc = CharField (Some 100) partial (d ''comment'');
          fu = PrimaryKeyRelatedField (map u_id (users s)) partial (d ''user'');
          fp = PrimaryKeyRelatedField (map b_id (blogs s)) partial (d ''post'');
          errors = errors_of ''comment'' fc @ errors_of ''user'' fu @ errors_of ''post'' fp
      in if errors \<noteq> [] then Inl (ValidationError errors)
         else Inr \<lparr>ca_comment = value_of fc, ca_user = value_of fu, ca_post = value_of fp\<rparr>)"

record LikeAttrs =
  la_user :: "int option"
  la_post :: "int option"

text \<open>
  The like serializer carries the \<open>UniqueTogetherValidator\<close> that the model's
  \<open>unique_together\<close> gives it: after the fields, the pair \<open>(user, post)\<close> of the data,
  completed from the instance in an update, must not belong to another row.
\<close>

definition LikeSerializer_is_valid ::
  "db \<Rightarrow> Like option \<Rightarrow> bool \<Rightarrow> (string \<rightharpoonup> pyval) \<Rightarrow> error + LikeAttrs" where
  "LikeSerializer_is_valid s instance partial d =
     (let fu = PrimaryKeyRelatedField (map u_id (users s)) partial (d ''user'');
          fp = PrimaryKeyRelatedField (map b_id (blogs s)) partial (d ''post'');
          errors = errors_of ''user'' fu @ errors_of ''post'' fp;
          u = (case value_of fu of Some u \<Rightarrow> Some u | None \<Rightarrow> map_option l_user instance);
          p = (case value_of fp of Some p \<Rightarrow> Some p | None \<Rightarrow> map_option l_post instance)
      in if errors \<noteq> [] then Inl (ValidationError errors)
         else if (\<exists>l \<in> set (likes s). Some (l_user l) = u \<and> Some (l_post l) = p
                    \<and> Some (l_id l) \<noteq> map_option l_id instance)
         then Inl (ValidationError [''non_field_errors''])
         else Inr \<lparr>la_user = value_of fu, la_post = value_of fp\<rparr>)"

record BlogAttrs =
  ba_title :: "string option"
  ba_description :: "string option"
  ba_image :: "string option option"
  ba_author :: "int option"

definition BlogSerializer_is_valid ::
  "db \<Rightarrow> bool \<Rightarrow> (string \<rightharpoonup> pyval) \<Rightarrow> error + BlogAttrs" where
  "BlogSerializer_is_valid s partial d =
     (let ft = CharField (Some 50) partial (d ''title'');
          fd = CharField (Some 200) partial (d ''description'');
          fi = ImageField (d ''image'');
          fa = PrimaryKeyRelatedField (map u_id (users s)) partial (d ''author'');
          errors = errors_of ''title'' ft @ errors_of ''description'' fd
                   @ errors_of ''image'' fi @ errors_of ''author'' fa
      in if errors \<noteq> [] then Inl (ValidationError errors)
         else Inr \<lparr>ba_title = value_of ft, ba_description = value_of fd,
                   ba_image = value_of fi, ba_author = value_of fa\<rparr>)"

text \<open>
  The user serializer declares \<open>password\<close> itself, as a plain write-only \<open>CharField\<close>;
  the username keeps the validators of the model (the characters allowed in a username,
  here the ASCII ones, at most 150 of them, unique) and the phone number is unique and
  at most 15 characters long. A \<open>UniqueValidator\<close> does not count the instance being
  updated.
\<close>

record UserAttrs =
  ua_password :: "string option"
  ua_username :: "string option"
  ua_phone :: "string option"

definition username_char :: "char \<Rightarrow> bool" where
  "username_char c =
     (let n = (of_char c :: nat) in
        (48 \<le> n \<and> n \<le> 57) \<or> (65 \<le> n \<and> n \<le> 90) \<or> (97 \<le> n \<and> n \<le> 122)
        \<or> c \<in> set ''_.@+-'')"

definition unique_field ::
  "('r \<Rightarrow> string) \<Rightarrow> ('r \<Rightarrow> int) \<Rightarrow> 'r list \<Rightarrow> 'r option \<Rightarrow> string field \<Rightarrow> string field" where
  "unique_field col key rows instance f =
     (case f of
        Accepted v \<Rightarrow>
          if (\<exists>r \<in> set rows. col r = v \<and> Some (key r) \<noteq> map_option key instance)
          then Rejected else Accepted v
      | _ \<Rightarrow> f)"

definition username_field :: "string field \<Rightarrow> string field" where
  "username_field f =
     (case f of Accepted v \<Rightarrow> if list_all username_char v then Accepted v else Rejected
      | _ \<Rightarrow> f)"

definition UserSerializer_is_valid ::
  "db \<Rightarrow> CustomUser option \<Rightarrow> bool \<Rightarrow> (string \<rightharpoonup> pyval) \<Rightarrow> error + UserAttrs" where
  "UserSerializer_is_valid s instance partial d =
     (let fw = CharField None partial (d ''password'');
          fn = unique_field u_username u_id (users s) instance
                 (username_field (CharField (Some 150) partial (d ''username'')));
          fp = unique_field u_phone u_id (users s) instance
                 (CharField (Some 15) partial (d ''phone''));
          errors = errors_of ''password'' fw @ errors_of ''username'' fn
                   @ errors_of ''phone'' fp
      in if errors \<noteq> [] then Inl (ValidationError errors)
         else Inr \<lparr>ua_password = value_of fw, ua_username = value_of fn,
                   ua_phone = value_of fp\<rparr>)"

section \<open>Writes to the database\<close>

text \<open>
  \<open>Model.objects.create(**validated_data)\<close>: a text column that the data leaves out
  takes the empty string, a foreign key that it leaves out is \<open>NULL\<close> and violates the
  column's \<open>NOT NULL\<close>. The database hands out the next primary key.
\<close>

definition text_or_default :: "string option \<Rightarrow> string" where
  "text_or_default v = (case v of None \<Rightarrow> [] | Some t \<Rightarrow> t)"

definition CustomUser_objects_create :: "db \<Rightarrow> UserAttrs \<Rightarrow> error + (CustomUser \<times> db)" where
  "CustomUser_objects_create s vd =
     (let u = \<lparr>u_id = user_seq s + 1,
                u_username = text_or_default (ua_username vd),
                u_password = text_or_default (ua_password vd),
                u_phone = text_or_default (ua_phone vd)\<rparr>
      in if (\<exists>r \<in> set (users s). u_username r = u_username u \<or> u_phone r = u_phone u)
         then Inl IntegrityError
         else Inr (u, s\<lparr>users := users s @ [u], user_seq := user_seq s + 1\<rparr>))"

definition Blog_objects_create :: "db \<Rightarrow> BlogAttrs \<Rightarrow> int \<Rightarrow> error + (Blog \<times> db)" where
  "Blog_objects_create s vd t =
     (case ba_author vd of
        None \<Rightarrow> Inl IntegrityError
      | Some a \<Rightarrow>
          (let b = \<lparr>b_id = blog_seq s + 1,
                     b_title = text_or_default (ba_title vd),
                     b_description = text_or_default (ba_description vd),
                     b_author = a,
                     b_publish_date = t,
                     b_image = (case ba_image vd of None \<Rightarrow> None | Some i \<Rightarrow> i)\<rparr>
           in Inr (b, s\<lparr>blogs := blogs s @ [b], blog_seq := blog_seq s + 1\<rparr>)))"

definition Comment_objects_create ::
  "db \<Rightarrow> CommentAttrs \<Rightarrow> int \<Rightarrow> error + (Comment \<times> db)" where
  "Comment_objects_create s vd t =
     (case (ca_user vd, ca_post vd) of
        (Some u, Some p) \<Rightarrow>
          (let c = \<lparr>c_id = comment_seq s + 1, c_user = u, c_post = p,
                     c_comment = text_or_default (ca_comment vd), c_time = t\<rparr>
           in Inr (c, s\<lparr>comments := comments s @ [c], comment_seq := comment_seq s + 1\<rparr>))
      | _ \<Rightarrow> Inl IntegrityError)"

text \<open>
  \<open>ModelSerializer.update\<close> followed by \<open>instance.save()\<close>: every key of the validated
  data is assigned to the instance, \<open>auto_now\<close> stamps it, and the row with the
  instance's primary key is rewritten.
\<close>

definition replace_row :: "('r \<Rightarrow> int) \<Rightarrow> 'r \<Rightarrow> 'r list \<Rightarrow> 'r list" where
  "replace_row key r rows = map (\<lambda>x. if key x = key r then r else x) rows"

definition or_else :: "'a option \<Rightarrow> 'a \<Rightarrow> 'a" where
  "or_else v d = (case v of None \<Rightarrow> d | Some x \<Rightarrow> x)"

definition Comment_update :: "db \<Rightarrow> Comment \<Rightarrow> CommentAttrs \<Rightarrow> int \<Rightarrow> Comment \<times> db" where
  "Comment_update s instance vd t =
     (let c = instance\<lparr>c_comment := or_else (ca_comment vd) (c_comment instance),
                       c_user := or_else (ca_user vd) (c_user instance),
                       c_post := or_else (ca_post vd) (c_post instance),
                       c_time := t\<rparr>
      in (c, s\<lparr>comments := replace_row c_id c (comments s)\<rparr>))"

definition Like_update :: "db \<Rightarrow> Like \<Rightarrow> LikeAttrs \<Rightarrow> int \<Rightarrow> error + (Like \<times> db)" where
  "Like_update s instance vd t =
     (let l = instance\<lparr>l_user := or_else (la_user vd) (l_user instance),
                       l_post := or_else (la_post vd) (l_post instance),
                       l_time := t\<rparr>
      in if (\<exists>r \<in> set (likes s). l_user r = l_user l \<and> l_post r = l_post l \<and> l_id r \<noteq> l_id l)
         then Inl IntegrityError
         else Inr (l, s\<lparr>likes := replace_row l_id l (likes s)\<rparr>))"

definition Blog_update :: "db \<Rightarrow> Blog \<Rightarrow> BlogAttrs \<Rightarrow> int \<Rightarrow> Blog \<times> db" where
  "Blog_update s instance vd t =
     (let b = instance\<lparr>b_title := or_else (ba_title vd) (b_title instance),
                       b_description := or_else (ba_description vd) (b_description instance),
                       b_image := or_else (ba_image vd) (b_image instance),
                       b_author := or_else (ba_author vd) (b_author instance),
                       b_publish_date := t\<rparr>
      in (b, s\<lparr>blogs := replace_row b_id b (blogs s)\<rparr>))"

definition CustomUser_update ::
  "db \<Rightarrow> CustomUser \<Rightarrow> UserAttrs \<Rightarrow> error + (CustomUser \<times> db)" where
  "CustomUser_update s instance vd =
     (let u = instance\<lparr>u_password := or_else (ua_password vd) (u_password instance),
                       u_username := or_else (ua_username vd) (u_username instance),
                       u_phone := or_else (ua_phone vd) (u_phone instance)\<rparr>
      in if (\<exists>r \<in> set (users s).
               (u_username r = u_username u \<or> u_phone r = u_phone u) \<and> u_id r \<noteq> u_id u)
         then Inl IntegrityError
         else Inr (u, s\<lparr>users := replace_row u_id u (users s)\<rparr>))"

text \<open>
  \<open>instance.delete()\<close>: every foreign key of the models is \<open>on_delete=CASCADE\<close>, so the
  rows that point to the deleted row go with it.
\<close>

definition Comment_delete :: "db \<Rightarrow> int \<Rightarrow> db" where
  "Comment_delete s pk = s\<lparr>comments := filter (\<lambda>c. c_id c \<noteq> pk) (comments s)\<rparr>"

definition Like_delete :: "db \<Rightarrow> int \<Rightarrow> db" where
  "Like_delete s pk = s\<lparr>likes := filter (\<lambda>l. l_id l \<noteq> pk) (likes s)\<rparr>"

definition Blog_delete :: "db \<Rightarrow> int \<Rightarrow> db" where
  "Blog_delete s pk =
     s\<lparr>blogs := filter (\<lambda>b. b_id b \<noteq> pk) (blogs s),
       likes := filter (\<lambda>l. l_post l \<noteq> pk) (likes s),
       comments := filter (\<lambda>c. c_post c \<noteq> pk) (comments s)\<rparr>"

definition CustomUser_delete :: "db \<Rightarrow> int \<Rightarrow> db" where
  "CustomUser_delete s pk =
     (let posts = map b_id (filter (\<lambda>b. b_author b = pk) (blogs s))
      in s\<lparr>users := filter (\<lambda>u. u_id u \<noteq> pk) (users s),
            blogs := filter (\<lambda>b. b_author b \<noteq> pk) (blogs s),
            likes := filter (\<lambda>l. l_user l \<noteq> pk \<and> l_post l \<notin> set posts) (likes s),
            comments := filter (\<lambda>c. c_user c \<noteq> pk \<and> c_post c \<notin> set posts) (comments s)\<rparr>)"

section \<open>The remaining views of \<open>register/views.py\<close>\<close>

subsection \<open>\<open>BlogViews\<close>: the inherited create, update and destroy\<close>

text \<open>\<open>perform_create\<close>: \<open>serializer.save(author=self.request.user)\<close>.\<close>

definition BlogViews_perform_create ::
  "db \<Rightarrow> int \<Rightarrow> int \<Rightarrow> BlogAttrs \<Rightarrow> error + (Blog \<times> db)" where
  "BlogViews_perform_create s user t vd = Blog_objects_create s (vd\<lparr>ba_author := Some user\<rparr>) t"

definition BlogViews_create :: "db \<Rightarrow> request \<Rightarrow> response \<times> db" where
  "BlogViews_create s req =
     run (BlogViews_get_permissions ''create'') s req (\<lambda>user.
       case BlogSerializer_is_valid s False (data req) of
         Inl e \<Rightarrow> Inl e
       | Inr vd \<Rightarrow>
           (case BlogViews_perform_create s user (now req) vd of
              Inl e \<Rightarrow> Inl e
            | Inr (b, s') \<Rightarrow> Inr (Response (BlogData b) 201, s')))"

definition BlogViews_update :: "db \<Rightarrow> request \<Rightarrow> int \<Rightarrow> bool \<Rightarrow> response \<times> db" where
  "BlogViews_update s req pk partial =
     run (BlogViews_get_permissions (if partial then ''partial_update'' else ''update'')) s req
       (\<lambda>user.
         case get_object b_id (blogs s) pk of
           Inl e \<Rightarrow> Inl e
         | Inr blog \<Rightarrow>
             (case BlogSerializer_is_valid s partial (data req) of
                Inl e \<Rightarrow> Inl e
              | Inr vd \<Rightarrow>
                  (case Blog_update s blog vd (now req) of
                     (b, s') \<Rightarrow> Inr (Response (BlogData b) 200, s'))))"

definition BlogViews_destroy :: "db \<Rightarrow> request \<Rightarrow> int \<Rightarrow> response \<times> db" where
  "BlogViews_destroy s req pk =
     run (BlogViews_get_permissions ''destroy'') s req (\<lambda>user.
       case get_object b_id (blogs s) pk of
         Inl e \<Rightarrow> Inl e
       | Inr blog \<Rightarrow> Inr (Response NoContent 204, Blog_delete s (b_id blog)))"

subsection \<open>\<open>CommentViews\<close>\<close>

text \<open>\<open>perform_create\<close>: \<open>serializer.save(user=self.request.user)\<close>.\<close>

definition CommentViews_perform_create ::
  "db \<Rightarrow> int \<Rightarrow> int \<Rightarrow> CommentAttrs \<Rightarrow> error + (Comment \<times> db)" where
  "CommentViews_perform_create s user t vd =
     Comment_objects_create s (vd\<lparr>ca_user := Some user\<rparr>) t"

definition CommentViews_create :: "db \<Rightarrow> request \<Rightarrow> response \<times> db" where
  "CommentViews_create s req =
     run IsAuthenticated s req (\<lambda>user.
       case CommentSerializer_is_valid s False (data req) of
         Inl e \<Rightarrow> Inl e
       | Inr vd \<Rightarrow>
           (case CommentViews_perform_create s user (now req) vd of
              Inl e \<Rightarrow> Inl e
            | Inr (c, s') \<Rightarrow> Inr (Response (CommentData c) 201, s')))"

text \<open>
  \<open>super().update\<close> and \<open>super().destroy\<close> of the model view set. \<open>partial\<close> is true for
  \<open>PATCH\<close>, which reaches \<open>update\<close> through \<open>partial_update\<close>.
\<close>

definition ModelViewSet_update_comment ::
  "db \<Rightarrow> request \<Rightarrow> int \<Rightarrow> bool \<Rightarrow> error + (response \<times> db)" where
  "ModelViewSet_update_comment s req pk partial =
     (case get_object c_id (comments s) pk of
        Inl e \<Rightarrow> Inl e
      | Inr instance \<Rightarrow>
          (case CommentSerializer_is_valid s partial (data req) of
             Inl e \<Rightarrow> Inl e
           | Inr vd \<Rightarrow>
               (case Comment_update s instance vd (now req) of
                  (c, s') \<Rightarrow> Inr (Response (CommentData c) 200, s'))))"

definition ModelViewSet_destroy_comment ::
  "db \<Rightarrow> request \<Rightarrow> int \<Rightarrow> error + (response \<times> db)" where
  "ModelViewSet_destroy_comment s req pk =
     (case get_object c_id (comments s) pk of
        Inl e \<Rightarrow> Inl e
      | Inr instance \<Rightarrow> Inr (Response NoContent 204, Comment_delete s (c_id instance)))"

definition CommentViews_update :: "db \<Rightarrow> request \<Rightarrow> int \<Rightarrow> bool \<Rightarrow> response \<times> db" where
  "CommentViews_update s req pk partial =
     run IsAuthenticated s req (\<lambda>user.
       case get_object c_id (comments s) pk of
         Inl e \<Rightarrow> Inl e
       | Inr comment \<Rightarrow>
           if c_user comment \<noteq> user
           then Inr (Response (Error ''Not authorized'') 403, s)
           else ModelViewSet_update_comment s req pk partial)"

definition CommentViews_destroy :: "db \<Rightarrow> request \<Rightarrow> int \<Rightarrow> response \<times> db" where
  "CommentViews_destroy s req pk =
     run IsAuthenticated s req (\<lambda>user.
       case get_object c_id (comments s) pk of
         Inl e \<Rightarrow> Inl e
       | Inr comment \<Rightarrow>
           if c_user comment \<noteq> user
           then Inr (Response (Error ''Not authorized'') 403, s)
           else ModelViewSet_destroy_comment s req pk)"

subsection \<open>\<open>LikeViews\<close>\<close>

text \<open>\<open>perform_create\<close>: \<open>serializer.save(user=self.request.user)\<close>.\<close>

definition LikeViews_perform_create ::
  "db \<Rightarrow> int \<Rightarrow> int \<Rightarrow> LikeAttrs \<Rightarrow> error + (Like \<times> db)" where
  "LikeViews_perform_create s user t vd =
     (case la_post (vd\<lparr>la_user := Some user\<rparr>) of
        None \<Rightarrow> Inl IntegrityError
      | Some p \<Rightarrow> Like_objects_create s user p t)"

definition ModelViewSet_create_like ::
  "db \<Rightarrow> request \<Rightarrow> int \<Rightarrow> error + (response \<times> db)" where
  "ModelViewSet_create_like s req user =
     (case LikeSerializer_is_valid s None False (data req) of
        Inl e \<Rightarrow> Inl e
      | Inr vd \<Rightarrow>
          (case LikeViews_perform_create s user (now req) vd of
             Inl e \<Rightarrow> Inl e
           | Inr (l, s') \<Rightarrow> Inr (Response (LikeData l) 201, s')))"

text \<open>\<open>request.data.get(key)\<close>.\<close>

definition dict_get :: "(string \<rightharpoonup> pyval) \<Rightarrow> string \<Rightarrow> pyval" where
  "dict_get d key = (case d key of None \<Rightarrow> PNone | Some v \<Rightarrow> v)"

text \<open>\<open>Like.objects.filter(user=user, post_id=post_id).exists()\<close>.\<close>

definition Like_filter_exists :: "db \<Rightarrow> int \<Rightarrow> pyval \<Rightarrow> error + bool" where
  "Like_filter_exists s user post_id =
     (case get_prep_value post_id of
        Inl e \<Rightarrow> Inl e
      | Inr None \<Rightarrow> Inr False
      | Inr (Some p) \<Rightarrow> Inr (Like_exists s user p))"

definition LikeViews_create :: "db \<Rightarrow> request \<Rightarrow> response \<times> db" where
  "LikeViews_create s req =
     run IsAuthenticated s req (\<lambda>user.
       let post_id = dict_get (data req) ''post'' in
       case Like_filter_exists s user post_id of
         Inl e \<Rightarrow> Inl e
       | Inr like_exists \<Rightarrow>
           if like_exists
           then Inr (Response (Error ''You have already liked this post'') 400, s)
           else ModelViewSet_create_like s req user)"

definition LikeViews_update :: "db \<Rightarrow> request \<Rightarrow> int \<Rightarrow> bool \<Rightarrow> response \<times> db" where
  "LikeViews_update s req pk partial =
     run IsAuthenticated s req (\<lambda>user.
       case get_object l_id (likes s) pk of
         Inl e \<Rightarrow> Inl e
       | Inr instance \<Rightarrow>
           (case LikeSerializer_is_valid s (Some instance) partial (data req) of
              Inl e \<Rightarrow> Inl e
            | Inr vd \<Rightarrow>
                (case Like_update s instance vd (now req) of
                   Inl e \<Rightarrow> Inl e
                 | Inr (l, s') \<Rightarrow> Inr (Response (LikeData l) 200, s'))))"

definition LikeViews_destroy :: "db \<Rightarrow> request \<Rightarrow> int \<Rightarrow> response \<times> db" where
  "LikeViews_destroy s req pk =
     run IsAuthenticated s req (\<lambda>user.
       case get_object l_id (likes s) pk of
         Inl e \<Rightarrow> Inl e
       | Inr instance \<Rightarrow> Inr (Response NoContent 204, Like_delete s (l_id instance)))"

subsection \<open>\<open>UserViews\<close>\<close>

definition UserViews_get_permissions :: "string \<Rightarrow> permission" where
  "UserViews_get_permissions action =
     (if action \<in> set [''create'', ''login''] then AllowAny else IsAuthenticated)"

text \<open>
  \<open>UserSerializer.create\<close>: \<open>CustomUser.objects.create(**validate_data)\<close>. The
  response leaves the write-only password out.
\<close>

definition UserSerializer_create :: "db \<Rightarrow> UserAttrs \<Rightarrow> error + (CustomUser \<times> db)" where
  "UserSerializer_create s validate_data = CustomUser_objects_create s validate_data"

definition UserViews_create :: "db \<Rightarrow> request \<Rightarrow> response \<times> db" where
  "UserViews_create s req =
     (case initial (UserViews_get_permissions ''create'') s req of
        Inl e \<Rightarrow> (handle_exception e, s)
      | Inr caller \<Rightarrow>
          (case UserSerializer_is_valid s None False (data req) of
             Inl e \<Rightarrow> (handle_exception e, s)
           | Inr vd \<Rightarrow>
               (case UserSerializer_create s vd of
                  Inl e \<Rightarrow> (handle_exception e, s)
                | Inr (u, s') \<Rightarrow>
                    (Response (UserData (u_id u) (u_username u) (u_phone u)) 201, s'))))"

definition UserViews_update :: "db \<Rightarrow> request \<Rightarrow> int \<Rightarrow> bool \<Rightarrow> response \<times> db" where
  "UserViews_update s req pk partial =
     run (UserViews_get_permissions (if partial then ''partial_update'' else ''update'')) s req
       (\<lambda>user.
         case get_object u_id (users s) pk of
           Inl e \<Rightarrow> Inl e
         | Inr instance \<Rightarrow>
             (case UserSerializer_is_valid s (Some instance) partial (data req) of
                Inl e \<Rightarrow> Inl e
              | Inr vd \<Rightarrow>
                  (case CustomUser_update s instance vd of
                     Inl e \<Rightarrow> Inl e
                   | Inr (u, s') \<Rightarrow>
                       Inr (Response (UserData (u_id u) (u_username u) (u_phone u)) 200, s'))))"

definition UserViews_destroy :: "db \<Rightarrow> request \<Rightarrow> int \<Rightarrow> response \<times> db" where
  "UserViews_destroy s req pk =
     run (UserViews_get_permissions ''destroy'') s req (\<lambda>user.
       case get_object u_id (users s) pk of
         Inl e \<Rightarrow> Inl e
       | Inr instance \<Rightarrow> Inr (Response NoContent 204, CustomUser_delete s (u_id instance)))"

subsection \<open>Refresh tokens and \<open>logout\<close>\<close>

text \<open>
  The claims of a token. What the libraries need from the project's settings is a
  parameter of the model: whether the token blacklist application is installed, the
  lifetimes of the tokens, the token backend (\<open>encode\<close> signs the claims into a string,
  \<open>decode\<close> reads a string whose signature it accepts), and the password hashers
  (\<open>check_password raw encoded\<close> tells whether the stored credential \<open>encoded\<close> is a hash
  of the password \<open>raw\<close>).
\<close>

record claims =
  token_type :: string
  exp :: int
  jti :: string
  user_id :: "int option"

record settings =
  blacklist_installed :: bool
  refresh_lifetime :: int
  access_lifetime :: int
  encode :: "claims \<Rightarrow> string"
  decode :: "string \<Rightarrow> claims option"
  check_password :: "string \<Rightarrow> string \<Rightarrow> bool"

text \<open>
  \<open>RefreshToken(token)\<close>: without a token (\<open>None\<close>) the constructor makes a new refresh
  token; with one it decodes it (the signature is accepted, the token has not expired)
  and verifies it: not blacklisted (when the blacklist is installed), of type
  \<open>refresh\<close>. Every failure is a \<open>TokenError\<close>.
\<close>

definition RefreshToken :: "settings \<Rightarrow> db \<Rightarrow> request \<Rightarrow> pyval \<Rightarrow> error + claims" where
  "RefreshToken cfg s req token =
     (case token of
        PNone \<Rightarrow>
          Inr \<lparr>token_type = ''refresh'', exp = now req + refresh_lifetime cfg,
               jti = uuid req 0, user_id = None\<rparr>
      | PInt n \<Rightarrow> Inl (TokenError ''Token is invalid or expired'')
      | PStr t \<Rightarrow>
          (case decode cfg t of
             None \<Rightarrow> Inl (TokenError ''Token is invalid or expired'')
           | Some c \<Rightarrow>
               if exp c \<le> now req then Inl (TokenError ''Token is invalid or expired'')
               else if blacklist_installed cfg \<and> jti c \<in> set (blacklisted s)
               then Inl (TokenError ''Token is blacklisted'')
               else if token_type c \<noteq> ''refresh''
               then Inl (TokenError ''Token has wrong type'')
               else Inr c))"

text \<open>\<open>token.blacklist()\<close>: the method exists only when the blacklist is installed.\<close>

definition blacklist :: "settings \<Rightarrow> db \<Rightarrow> claims \<Rightarrow> error + db" where
  "blacklist cfg s token =
     (if \<not> blacklist_installed cfg
      then Inl (AttributeError ''RefreshToken object has no attribute blacklist'')
      else if jti token \<in> set (blacklisted s) then Inr s
      else Inr (s\<lparr>blacklisted := blacklisted s @ [jti token]\<rparr>))"

text \<open>
  \<open>authenticate(username=username, password=password)\<close>, the model backend: no user
  without both credentials; the user of that name, when the password checks against the
  stored credential.
\<close>

definition py_str :: "pyval \<Rightarrow> string option" where
  "py_str v = (case v of PNone \<Rightarrow> None | PInt n \<Rightarrow> Some (py_str_int n) | PStr t \<Rightarrow> Some t)"

definition authenticate :: "settings \<Rightarrow> db \<Rightarrow> pyval \<Rightarrow> pyval \<Rightarrow> CustomUser option" where
  "authenticate cfg s username password =
     (case (py_str username, py_str password) of
        (Some name, Some raw) \<Rightarrow>
          (case find (\<lambda>u. u_username u = name) (users s) of
             None \<Rightarrow> None
           | Some user \<Rightarrow> if check_password cfg raw (u_password user) then Some user else None)
      | _ \<Rightarrow> None)"

text \<open>\<open>RefreshToken.for_user(user)\<close> and its \<open>access_token\<close>.\<close>

definition for_user :: "settings \<Rightarrow> request \<Rightarrow> CustomUser \<Rightarrow> claims" where
  "for_user cfg req user =
     \<lparr>token_type = ''refresh'', exp = now req + refresh_lifetime cfg, jti = uuid req 0,
      user_id = Some (u_id user)\<rparr>"

definition access_token :: "settings \<Rightarrow> request \<Rightarrow> claims \<Rightarrow> claims" where
  "access_token cfg req refresh =
     refresh\<lparr>token_type := ''access'', exp := now req + access_lifetime cfg, jti := uuid req 1\<rparr>"

definition UserViews_login :: "settings \<Rightarrow> db \<Rightarrow> request \<Rightarrow> response" where
  "UserViews_login cfg s req =
     (case initial (UserViews_get_permissions ''login'') s req of
        Inl e \<Rightarrow> handle_exception e
      | Inr caller \<Rightarrow>
          (let username = dict_get (data req) ''username'';
               password = dict_get (data req) ''password''
           in case authenticate cfg s username password of
                Some user \<Rightarrow>
                  (let refresh = for_user cfg req user
                   in Response (Tokens (encode cfg refresh)
                                  (encode cfg (access_token cfg req refresh))
                                  (u_id user) (u_username user)) 200)
              | None \<Rightarrow> Response (Error ''Invalid credentials'') 401))"

fun error_str :: "error \<Rightarrow> string" where
  "error_str (TokenError m) = m"
| "error_str (AttributeError m) = m"
| "error_str e = []"

definition UserViews_logout :: "settings \<Rightarrow> db \<Rightarrow> request \<Rightarrow> response \<times> db" where
  "UserViews_logout cfg s req =
     run (UserViews_get_permissions ''logout'') s req (\<lambda>user.
       let refresh_token = dict_get (data req) ''refresh'' in
       case RefreshToken cfg s req refresh_token of
         Inl e \<Rightarrow> Inr (Response (Error (error_str e)) 400, s)
       | Inr token \<Rightarrow>
           (case blacklist cfg s token of
              Inl e \<Rightarrow> Inr (Response (Error (error_str e)) 400, s)
            | Inr s' \<Rightarrow> Inr (Response (Message ''Logged out successfully'') 200, s')))"

section \<open>Reachable states\<close>

text \<open>
  The states of the database that the views reach from the empty database. The
  \<open>login\<close> action, the listings and the retrievals write none of the tables modelled
  here.
\<close>

inductive reachable :: "db \<Rightarrow> bool" where
  init: "reachable empty_db"
| user_create: "reachable s \<Longrightarrow> reachable (snd (UserViews_create s req))"
| user_update: "reachable s \<Longrightarrow> reachable (snd (UserViews_update s req pk partial))"
| user_destroy: "reachable s \<Longrightarrow> reachable (snd (UserViews_destroy s req pk))"
| user_logout: "reachable s \<Longrightarrow> reachable (snd (UserViews_logout cfg s req))"
| blog_create: "reachable s \<Longrightarrow> reachable (snd (BlogViews_create s req))"
| blog_update: "reachable s \<Longrightarrow> reachable (snd (BlogViews_update s req pk partial))"
| blog_destroy: "reachable s \<Longrightarrow> reachable (snd (BlogViews_destroy s req pk))"
| blog_like: "reachable s \<Longrightarrow> reachable (snd (BlogViews_like s req pk))"
| comment_create: "reachable s \<Longrightarrow> reachable (snd (CommentViews_create s req))"
| comment_update: "reachable s \<Longrightarrow> reachable (snd (CommentViews_update s req pk partial))"
| comment_destroy: "reachable s \<Longrightarrow> reachable (snd (CommentViews_destroy s req pk))"
| like_create: "reachable s \<Longrightarrow> reachable (snd (LikeViews_create s req))"
| like_update: "reachable s \<Longrightarrow> reachable (snd (LikeViews_update s req pk partial))"
| like_destroy: "reachable s \<Longrightarrow> reachable (snd (LikeViews_destroy s req pk))"

text \<open>The invariant of the \<open>Like\<close> table: no two rows with the same user and post.\<close>

definition likes_unique :: "db \<Rightarrow> bool" where
  "likes_unique s = distinct (map (\<lambda>l. (l_user l, l_post l)) (likes s))"

section \<open>Invariants of the \<open>Like\<close> table\<close>

text \<open>
  The primary keys of the likes are distinct and were handed out by the sequence. The
  views keep this together with \<open>likes_unique\<close>.
\<close>

definition like_ids_ok :: "db \<Rightarrow> bool" where
  "like_ids_ok s =
     (distinct (map l_id (likes s)) \<and> (\<forall>l \<in> set (likes s). l_id l \<le> like_seq s))"

definition likes_inv :: "db \<Rightarrow> bool" where
  "likes_inv s = (likes_unique s \<and> like_ids_ok s)"

section \<open>Example data\<close>

text \<open>
  Two users, \<open>a\<close> (id 1) and \<open>b\<close> (id 2); two posts of \<open>a\<close>, \<open>P\<close> (id 10) and \<open>Q\<close>
  (id 11); a like and two comments on \<open>P\<close>.
\<close>

definition user_a :: CustomUser where
  "user_a = \<lparr>u_id = 1, u_username = ''a'', u_password = ''secret-a'', u_phone = ''100''\<rparr>"

definition user_b :: CustomUser where
  "user_b = \<lparr>u_id = 2, u_username = ''b'', u_password = ''secret-b'', u_phone = ''200''\<rparr>"

definition post_p :: Blog where
  "post_p = \<lparr>b_id = 10, b_title = ''P'', b_description = ''first post'', b_author = 1,
              b_publish_date = 50, b_image = None\<rparr>"

definition post_q :: Blog where
  "post_q = \<lparr>b_id = 11, b_title = ''Q'', b_description = ''second post'', b_author = 1,
              b_publish_date = 55, b_image = None\<rparr>"

definition example_db :: db where
  "example_db = \<lparr>users = [user_a, user_b], blogs = [post_p, post_q], likes = [],
     comments = [], user_seq = 2, blog_seq = 11, like_seq = 0, comment_seq = 0,
     blacklisted = []\<rparr>"

definition like_of_b :: Like where
  "like_of_b = \<lparr>l_id = 1, l_user = 2, l_post = 10, l_time = 60\<rparr>"

definition liked_db :: db where
  "liked_db = example_db\<lparr>likes := [like_of_b], like_seq := 1\<rparr>"

definition comment_1 :: Comment where
  "comment_1 = \<lparr>c_id = 1, c_user = 2, c_post = 10, c_comment = ''hello'', c_time = 60\<rparr>"

definition comment_2 :: Comment where
  "comment_2 = \<lparr>c_id = 2, c_user = 1, c_post = 10, c_comment = ''welcome'', c_time = 65\<rparr>"

definition commented_db :: db where
  "commented_db = example_db\<lparr>comments := [comment_1, comment_2], comment_seq := 2\<rparr>"

text \<open>A request of the user \<open>u\<close> with the body \<open>d\<close>, served at the time \<open>t\<close>.\<close>

definition request_by :: "int \<Rightarrow> (string \<rightharpoonup> pyval) \<Rightarrow> int \<Rightarrow> request" where
  "request_by u d t = \<lparr>auth = Some u, data = d, now = t, uuid = (\<lambda>k. ''0f'')\<rparr>"

text \<open>The anonymous request that registers the user \<open>a\<close>.\<close>

definition register_a :: request where
  "register_a = \<lparr>auth = None,
     data = [''username'' \<mapsto> PStr ''a'', ''password'' \<mapsto> PStr ''secret-a'',
             ''phone'' \<mapsto> PStr ''100''],
     now = 10, uuid = (\<lambda>k. ''0a'')\<rparr>"

text \<open>The anonymous request with which \<open>a\<close> logs in, with the password of the registration.\<close>

definition login_a :: request where
  "login_a = \<lparr>auth = None,
     data = [''username'' \<mapsto> PStr ''a'', ''password'' \<mapsto> PStr ''secret-a''],
     now = 20, uuid = (\<lambda>k. ''0b'')\<rparr>"

text \<open>
  Settings for the examples. The stand-in for the password hashers encodes a password
  as \<open>plain$\<close> followed by the password; the stand-in for the token backend knows one
  refresh token, issued to the user \<open>a\<close>.
\<close>

definition token_of_a :: claims where
  "token_of_a = \<lparr>token_type = ''refresh'', exp = 1000, jti = ''j1'', user_id = Some 1\<rparr>"

definition example_settings :: settings where
  "example_settings =
     \<lparr>blacklist_installed = True, refresh_lifetime = 86400, access_lifetime = 300,
      encode = (\<lambda>c. jti c),
      decode = (\<lambda>t. if t = ''signed-j1'' then Some token_of_a else None),
      check_password = (\<lambda>raw encoded. encoded = ''plain$'' @ raw)\<rparr>"

text \<open>
  The owner \<open>b\<close> of the first comment rewrites it with a full update whose body names
  another user and another post, and the comment that results.
\<close>

definition reassign_comment_1 :: request where
  "reassign_comment_1 = request_by 2
     [''comment'' \<mapsto> PStr ''edited'', ''user'' \<mapsto> PInt 1, ''post'' \<mapsto> PInt 11] 90"

definition reassigned_comment :: Comment where
  "reassigned_comment =
     \<lparr>c_id = 1, c_user = 1, c_post = 11, c_comment = ''edited'', c_time = 90\<rparr>"

text \<open>
  A run from the empty database: \<open>a\<close> registers, creates a post and likes it.
\<close>

definition registered_db :: db where
  "registered_db = empty_db\<lparr>users := [user_a], user_seq := 1\<rparr>"

definition create_post_1 :: request where
  "create_post_1 = request_by 1
     [''title'' \<mapsto> PStr ''P'', ''description'' \<mapsto> PStr ''first post'', ''author'' \<mapsto> PInt 1] 50"

definition post_1 :: Blog where
  "post_1 = \<lparr>b_id = 1, b_title = ''P'', b_description = ''first post'', b_author = 1,
              b_publish_date = 50, b_image = None\<rparr>"

definition posted_db :: db where
  "posted_db = registered_db\<lparr>blogs := [post_1], blog_seq := 1\<rparr>"

definition first_like_db :: db where
  "first_like_db =
     posted_db\<lparr>likes := [\<lparr>l_id = 1, l_user = 1, l_post = 1, l_time = 60\<rparr>], like_seq := 1\<rparr>"


section \<open>Invariant of the \<open>Comment\<close> table\<close>

text \<open>
  The primary keys of the comments ascend along the table and were handed out by the
  sequence: the order of the table is the order of creation.
\<close>

definition comments_inv :: "db \<Rightarrow> bool" where
  "comments_inv s =
     (sorted_wrt (<) (map c_id (comments s))
      \<and> (\<forall>c \<in> set (comments s). c_id c \<le> comment_seq s))"

section \<open>Further example requests\<close>

text \<open>The owner \<open>b\<close> of the first comment sends a full update that holds the text only.\<close>

definition edit_text_only :: request where
  "edit_text_only = request_by 2 [''comment'' \<mapsto> PStr ''edited''] 90"

text \<open>A request without a token.\<close>

definition anonymous :: "(string \<rightharpoonup> pyval) \<Rightarrow> int \<Rightarrow> request" where
  "anonymous d t = \<lparr>auth = None, data = d, now = t, uuid = (\<lambda>k. ''0c'')\<rparr>"









text \<open>
  The run from the empty database, continued: \<open>a\<close> writes two comments under the post
  and then rewrites the first one.
\<close>

definition first_comment :: request where
  "first_comment = request_by 1
     [''comment'' \<mapsto> PStr ''one'', ''user'' \<mapsto> PInt 1, ''post'' \<mapsto> PInt 1] 70"

definition second_comment :: request where
  "second_comment = request_by 1
     [''comment'' \<mapsto> PStr ''two'', ''user'' \<mapsto> PInt 1, ''post'' \<mapsto> PInt 1] 80"

definition edit_first_comment :: request where
  "edit_first_comment = request_by 1
     [''comment'' \<mapsto> PStr ''one, edited'', ''user'' \<mapsto> PInt 1, ''post'' \<mapsto> PInt 1] 90"

definition comment_one :: Comment where
  "comment_one = \<lparr>c_id = 1, c_user = 1, c_post = 1, c_comment = ''one'', c_time = 70\<rparr>"

definition comment_two :: Comment where
  "comment_two = \<lparr>c_id = 2, c_user = 1, c_post = 1, c_comment = ''two'', c_time = 80\<rparr>"

definition comment_one_edited :: Comment where
  "comment_one_edited =
     \<lparr>c_id = 1, c_user = 1, c_post = 1, c_comment = ''one, edited'', c_time = 90\<rparr>"

definition one_comment_db :: db where
  "one_comment_db = first_like_db\<lparr>comments := [comment_one], comment_seq := 1\<rparr>"

definition two_comments_db :: db where
  "two_comments_db = first_like_db\<lparr>comments := [comment_one, comment_two], comment_seq := 2\<rparr>"

definition discussed_db :: db where
  "discussed_db =
     first_like_db\<lparr>comments := [comment_one_edited, comment_two], comment_seq := 2\<rparr>"

section \<open>Auxiliary lemmas\<close>

lemma initial_caller:
  "auth req = Some u \<Longrightarrow> u \<in> set (map u_id (users s)) \<Longrightarrow> initial p s req = Inr (Some u)"
  by (cases p) (simp_all add: initial_def request_user_def)

lemma run_caller:
  "auth req = Some u \<Longrightarrow> u \<in> set (map u_id (users s)) \<Longrightarrow>
   run p s req view = (case view u of Inl e \<Rightarrow> (handle_exception e, s) | Inr rs \<Rightarrow> rs)"
  by (simp add: run_def initial_caller)

lemma find_key_Some: "find (\<lambda>r. key r = pk) rows = Some r \<Longrightarrow> key r = pk \<and> r \<in> set rows"
  by (induction rows) (simp_all split: if_splits)

lemma find_key_None: "find (\<lambda>r. key r = pk) rows = None \<Longrightarrow> pk \<notin> key ` set rows"
  by (induction rows) (simp_all split: if_splits)

lemma get_object_Inr:
  assumes "get_object key rows pk = Inr r"
  shows "key r = pk \<and> r \<in> set rows"
proof (cases "find (\<lambda>r. key r = pk) rows")
  case None
  with assms show ?thesis by (simp add: get_object_def)
next
  case (Some x)
  with assms have "x = r" by (simp add: get_object_def)
  with find_key_Some [OF Some] show ?thesis by simp
qed

lemma get_object_exists:
  assumes "pk \<in> set (map key rows)"
  shows "\<exists>r. get_object key rows pk = Inr r"
proof (cases "find (\<lambda>r. key r = pk) rows")
  case None
  from find_key_None [OF None] assms show ?thesis by simp
next
  case (Some x)
  then show ?thesis by (simp add: get_object_def)
qed

lemma run_preserves:
  assumes "P s" and "\<And>user r s'. view user = Inr (r, s') \<Longrightarrow> P s'"
  shows "P (snd (run p s req view))"
proof (cases "initial p s req")
  case (Inl e)
  then show ?thesis using assms(1) by (simp add: run_def)
next
  case (Inr c)
  show ?thesis
  proof (cases c)
    case None
    with Inr show ?thesis using assms(1) by (simp add: run_def)
  next
    case (Some user)
    show ?thesis
    proof (cases "view user")
      case (Inl e)
      with Inr Some show ?thesis using assms(1) by (simp add: run_def)
    next
      case (Inr rs)
      obtain r s' where rs: "rs = (r, s')" by (cases rs)
      with Inr assms(2) have "P s'" by simp
      with Inr rs \<open>initial p s req = Inr c\<close> Some show ?thesis by (simp add: run_def)
    qed
  qed
qed

lemma BlogViews_like_caller:
  assumes "auth req = Some u" and "u \<in> set (map u_id (users s))"
    and "pk \<in> set (map b_id (blogs s))"
  shows "BlogViews_like s req pk =
    (if Like_exists s u pk
     then (Response (Message ''Like removed'') 200,
           s\<lparr>likes := filter (\<lambda>l. \<not> (l_user l = u \<and> l_post l = pk)) (likes s)\<rparr>)
     else (Response (Message ''Post liked'') 201,
           s\<lparr>likes := likes s @ [\<lparr>l_id = like_seq s + 1, l_user = u, l_post = pk,
                                   l_time = now req\<rparr>],
             like_seq := like_seq s + 1\<rparr>))"
proof -
  from get_object_exists [OF assms(3)] obtain blog
    where b: "get_object b_id (blogs s) pk = Inr blog" ..
  have k: "b_id blog = pk" using get_object_Inr [OF b] by simp
  show ?thesis
    by (simp add: BlogViews_like_def run_caller [OF assms(1,2)] b k Like_filter_delete_def
        Like_objects_create_def Let_def)
qed

lemma likes_unique_filter: "likes_unique s \<Longrightarrow> likes_unique (s\<lparr>likes := filter P (likes s)\<rparr>)"
  by (simp add: likes_unique_def distinct_map_filter)

lemma likes_unique_create:
  "likes_unique s \<Longrightarrow> Like_objects_create s u p t = Inr (l, s') \<Longrightarrow> likes_unique s'"
  by (auto simp: likes_unique_def Like_objects_create_def Like_exists_def Let_def
      split: if_splits)

lemma like_ids_ok_filter: "like_ids_ok s \<Longrightarrow> like_ids_ok (s\<lparr>likes := filter P (likes s)\<rparr>)"
  by (simp add: like_ids_ok_def distinct_map_filter)

lemma like_ids_ok_create:
  "like_ids_ok s \<Longrightarrow> Like_objects_create s u p t = Inr (l, s') \<Longrightarrow> like_ids_ok s'"
  by (fastforce simp: like_ids_ok_def Like_objects_create_def Let_def split: if_splits)

lemma likes_unique_like:
  "likes_unique s \<Longrightarrow> likes_unique (snd (BlogViews_like s req pk))"
  unfolding BlogViews_like_def
  by (rule run_preserves)
     (auto simp: Like_filter_delete_def likes_unique_filter
       split: sum.splits if_splits prod.splits dest: likes_unique_create)

lemma like_ids_ok_like:
  "like_ids_ok s \<Longrightarrow> like_ids_ok (snd (BlogViews_like s req pk))"
  unfolding BlogViews_like_def
  by (rule run_preserves)
     (auto simp: Like_filter_delete_def like_ids_ok_filter
       split: sum.splits if_splits prod.splits dest: like_ids_ok_create)

lemma likes_unique_create_view:
  "likes_unique s \<Longrightarrow> likes_unique (snd (LikeViews_create s req))"
  unfolding LikeViews_create_def
  by (rule run_preserves)
     (auto simp: ModelViewSet_create_like_def LikeViews_perform_create_def Let_def
       split: sum.splits if_splits prod.splits option.splits dest: likes_unique_create)

lemma like_ids_ok_create_view:
  "like_ids_ok s \<Longrightarrow> like_ids_ok (snd (LikeViews_create s req))"
  unfolding LikeViews_create_def
  by (rule run_preserves)
     (auto simp: ModelViewSet_create_like_def LikeViews_perform_create_def Let_def
       split: sum.splits if_splits prod.splits option.splits dest: like_ids_ok_create)

lemma likes_inv_same:
  "likes_inv s \<Longrightarrow> likes s' = likes s \<Longrightarrow> like_seq s' = like_seq s \<Longrightarrow> likes_inv s'"
  by (simp add: likes_inv_def likes_unique_def like_ids_ok_def)

lemma likes_inv_filter:
  "likes_inv s \<Longrightarrow> likes s' = filter P (likes s) \<Longrightarrow> like_seq s' = like_seq s \<Longrightarrow> likes_inv s'"
  by (simp add: likes_inv_def likes_unique_def like_ids_ok_def distinct_map_filter)

lemma replace_row_distinct_key:
  "distinct (map key rows) \<Longrightarrow> map key (replace_row key r rows) = map key rows"
  by (induction rows) (auto simp: replace_row_def)

lemma replace_row_Nil: "replace_row key r [] = []"
  by (simp add: replace_row_def)

lemma replace_row_Cons:
  "replace_row key r (a # rows) = (if key a = key r then r else a) # replace_row key r rows"
  by (simp add: replace_row_def)

lemma replace_row_set:
  "set (replace_row key r rows) \<subseteq> insert r (set rows)"
  by (auto simp: replace_row_def)

lemma replace_row_distinct_pairs:
  assumes "distinct (map key rows)" and "distinct (map f rows)"
    and "\<forall>x \<in> set rows. f x = f r \<longrightarrow> key x = key r"
  shows "distinct (map f (replace_row key r rows))"
  using assms
proof (induction rows)
  case Nil
  then show ?case by (simp add: replace_row_Nil)
next
  case (Cons a rows)
  have ih: "distinct (map f (replace_row key r rows))" using Cons by simp
  show ?case
  proof (cases "key a = key r")
    case True
    have "f r \<notin> f ` set (replace_row key r rows)"
    proof
      assume "f r \<in> f ` set (replace_row key r rows)"
      then obtain y where y: "y \<in> set (replace_row key r rows)" "f y = f r" by auto
      then have "y = r \<or> y \<in> set rows" using replace_row_set [of key r rows] by auto
      then show False
      proof
        assume "y = r"
        with y(1) obtain x where "x \<in> set rows" "key x = key r"
          by (auto simp: replace_row_def split: if_splits)
        with Cons.prems(1) True show False by (auto simp: image_iff)
      next
        assume yr: "y \<in> set rows"
        with Cons.prems(3) y(2) have "key y = key r" by simp
        with Cons.prems(1) True yr show False by (auto simp: image_iff)
      qed
    qed
    with ih True show ?thesis by (simp add: replace_row_Cons)
  next
    case False
    have "f a \<notin> f ` set (replace_row key r rows)"
    proof
      assume "f a \<in> f ` set (replace_row key r rows)"
      then obtain y where y: "y \<in> set (replace_row key r rows)" "f y = f a" by auto
      then have "y = r \<or> y \<in> set rows" using replace_row_set [of key r rows] by auto
      then show False
      proof
        assume "y = r"
        with y(2) Cons.prems(3) False show False by auto
      next
        assume "y \<in> set rows"
        with y(2) Cons.prems(2) show False by (auto simp: image_iff)
      qed
    qed
    with ih False show ?thesis by (simp add: replace_row_Cons)
  qed
qed

lemma likes_inv_update:
  assumes "likes_inv s" and "get_object l_id (likes s) pk = Inr instance"
    and "Like_update s instance vd t = Inr (l, s')"
  shows "likes_inv s'"
proof -
  let ?l = "instance\<lparr>l_user := or_else (la_user vd) (l_user instance),
                       l_post := or_else (la_post vd) (l_post instance), l_time := t\<rparr>"
  from assms(3) have l: "l = ?l" and s': "s' = s\<lparr>likes := replace_row l_id ?l (likes s)\<rparr>"
    and chk: "\<forall>r \<in> set (likes s). l_user r = l_user ?l \<and> l_post r = l_post ?l \<longrightarrow> l_id r = l_id ?l"
    by (auto simp: Like_update_def Let_def split: if_splits)
  from assms(1) have d: "distinct (map l_id (likes s))"
    and u: "distinct (map (\<lambda>l. (l_user l, l_post l)) (likes s))"
    and b: "\<forall>l \<in> set (likes s). l_id l \<le> like_seq s"
    by (simp_all add: likes_inv_def like_ids_ok_def likes_unique_def)
  have ids: "map l_id (replace_row l_id ?l (likes s)) = map l_id (likes s)"
    using replace_row_distinct_key [OF d] .
  have "distinct (map (\<lambda>l. (l_user l, l_post l)) (replace_row l_id ?l (likes s)))"
    by (rule replace_row_distinct_pairs [OF d u]) (use chk in auto)
  moreover have "\<forall>x \<in> set (replace_row l_id ?l (likes s)). l_id x \<le> like_seq s"
  proof
    fix x assume "x \<in> set (replace_row l_id ?l (likes s))"
    then have "l_id x \<in> set (map l_id (replace_row l_id ?l (likes s)))" by simp
    then have "l_id x \<in> set (map l_id (likes s))" unfolding ids .
    with b show "l_id x \<le> like_seq s" by auto
  qed
  ultimately show ?thesis
    using d ids by (simp add: s' likes_inv_def like_ids_ok_def likes_unique_def)
qed

lemma likes_inv_like: "likes_inv s \<Longrightarrow> likes_inv (snd (BlogViews_like s req pk))"
  by (simp add: likes_inv_def likes_unique_like like_ids_ok_like)

lemma likes_inv_create_view: "likes_inv s \<Longrightarrow> likes_inv (snd (LikeViews_create s req))"
  by (simp add: likes_inv_def likes_unique_create_view like_ids_ok_create_view)

lemma likes_inv_update_view:
  "likes_inv s \<Longrightarrow> likes_inv (snd (LikeViews_update s req pk partial))"
  unfolding LikeViews_update_def
  by (rule run_preserves)
     (auto split: sum.splits prod.splits dest: likes_inv_update)

lemma likes_inv_destroy_view:
  "likes_inv s \<Longrightarrow> likes_inv (snd (LikeViews_destroy s req pk))"
  unfolding LikeViews_destroy_def
  by (rule run_preserves)
     (auto simp: Like_delete_def split: sum.splits elim: likes_inv_filter)

lemma likes_inv_blog_destroy:
  "likes_inv s \<Longrightarrow> likes_inv (snd (BlogViews_destroy s req pk))"
  unfolding BlogViews_destroy_def
  by (rule run_preserves)
     (auto simp: Blog_delete_def split: sum.splits elim: likes_inv_filter)

lemma likes_inv_user_destroy:
  "likes_inv s \<Longrightarrow> likes_inv (snd (UserViews_destroy s req pk))"
  unfolding UserViews_destroy_def
  by (rule run_preserves)
     (auto simp: CustomUser_delete_def Let_def split: sum.splits elim: likes_inv_filter)

lemma likes_inv_blog_create:
  "likes_inv s \<Longrightarrow> likes_inv (snd (BlogViews_create s req))"
  unfolding BlogViews_create_def
  by (rule run_preserves)
     (auto simp: BlogViews_perform_create_def Blog_objects_create_def Let_def
       split: sum.splits prod.splits option.splits elim: likes_inv_same)

lemma likes_inv_blog_update:
  "likes_inv s \<Longrightarrow> likes_inv (snd (BlogViews_update s req pk partial))"
  unfolding BlogViews_update_def
  by (rule run_preserves)
     (auto simp: Blog_update_def Let_def split: sum.splits prod.splits elim: likes_inv_same)

lemma likes_inv_comment_create:
  "likes_inv s \<Longrightarrow> likes_inv (snd (CommentViews_create s req))"
  unfolding CommentViews_create_def
  by (rule run_preserves)
     (auto simp: CommentViews_perform_create_def Comment_objects_create_def Let_def
       split: sum.splits prod.splits option.splits elim: likes_inv_same)

lemma likes_inv_comment_update:
  "likes_inv s \<Longrightarrow> likes_inv (snd (CommentViews_update s req pk partial))"
  unfolding CommentViews_update_def
  by (rule run_preserves)
     (auto simp: ModelViewSet_update_comment_def Comment_update_def Let_def
       split: sum.splits prod.splits if_splits elim: likes_inv_same)

lemma likes_inv_comment_destroy:
  "likes_inv s \<Longrightarrow> likes_inv (snd (CommentViews_destroy s req pk))"
  unfolding CommentViews_destroy_def
  by (rule run_preserves)
     (auto simp: ModelViewSet_destroy_comment_def Comment_delete_def
       split: sum.splits prod.splits if_splits elim: likes_inv_same)

lemma likes_inv_user_create:
  "likes_inv s \<Longrightarrow> likes_inv (snd (UserViews_create s req))"
  by (auto simp: UserViews_create_def UserSerializer_create_def CustomUser_objects_create_def
      Let_def split: sum.splits prod.splits if_splits elim: likes_inv_same)

lemma likes_inv_user_update:
  "likes_inv s \<Longrightarrow> likes_inv (snd (UserViews_update s req pk partial))"
  unfolding UserViews_update_def
  by (rule run_preserves)
     (auto simp: CustomUser_update_def Let_def split: sum.splits prod.splits if_splits
       elim: likes_inv_same)

lemma likes_inv_logout:
  "likes_inv s \<Longrightarrow> likes_inv (snd (UserViews_logout cfg s req))"
  unfolding UserViews_logout_def
  by (rule run_preserves)
     (auto simp: blacklist_def Let_def split: sum.splits prod.splits if_splits
       elim: likes_inv_same)

lemma likes_inv_empty: "likes_inv empty_db"
  by (simp add: likes_inv_def likes_unique_def like_ids_ok_def empty_db_def)

lemma reachable_likes_inv: "reachable s \<Longrightarrow> likes_inv s"
  by (induction rule: reachable.induct)
     (simp_all add: likes_inv_empty likes_inv_user_create likes_inv_user_update
       likes_inv_user_destroy likes_inv_logout likes_inv_blog_create likes_inv_blog_update
       likes_inv_blog_destroy likes_inv_like likes_inv_comment_create likes_inv_comment_update
       likes_inv_comment_destroy likes_inv_create_view likes_inv_update_view
       likes_inv_destroy_view)

lemma filter_none:
  "\<forall>x \<in> set xs. \<not> P x \<Longrightarrow> filter (\<lambda>x. \<not> P x) xs = xs"
  by (induction xs) simp_all

lemma CommentSerializer_error:
  "CommentSerializer_is_valid s partial d = Inl e \<Longrightarrow> \<exists>fs. e = ValidationError fs"
  by (auto simp: CommentSerializer_is_valid_def Let_def split: if_splits)

lemma CommentViews_update_owner:
  assumes "auth req = Some u" and "u \<in> set (map u_id (users s))"
    and "get_object c_id (comments s) pk = Inr c" and "c_user c = u"
  shows "CommentViews_update s req pk partial =
    (case CommentSerializer_is_valid s partial (data req) of
       Inl e \<Rightarrow> (handle_exception e, s)
     | Inr vd \<Rightarrow>
         (Response (CommentData (fst (Comment_update s c vd (now req)))) 200,
          snd (Comment_update s c vd (now req))))"
  by (simp add: CommentViews_update_def run_caller [OF assms(1,2)] assms(3,4)
      ModelViewSet_update_comment_def split: sum.splits prod.splits)

lemma CommentViews_update_other:
  assumes "auth req = Some u" and "u \<in> set (map u_id (users s))"
    and "get_object c_id (comments s) pk = Inr c" and "c_user c \<noteq> u"
  shows "CommentViews_update s req pk partial = (Response (Error ''Not authorized'') 403, s)"
  by (simp add: CommentViews_update_def run_caller [OF assms(1,2)] assms(3,4))

lemma CommentViews_destroy_owner:
  assumes "auth req = Some u" and "u \<in> set (map u_id (users s))"
    and "get_object c_id (comments s) pk = Inr c" and "c_user c = u"
  shows "CommentViews_destroy s req pk =
    (Response NoContent 204, s\<lparr>comments := filter (\<lambda>x. c_id x \<noteq> pk) (comments s)\<rparr>)"
proof -
  have k: "c_id c = pk" using get_object_Inr [OF assms(3)] by simp
  show ?thesis
    by (simp add: CommentViews_destroy_def run_caller [OF assms(1,2)] assms(3,4) k
        ModelViewSet_destroy_comment_def Comment_delete_def)
qed

lemma CommentViews_destroy_other:
  assumes "auth req = Some u" and "u \<in> set (map u_id (users s))"
    and "get_object c_id (comments s) pk = Inr c" and "c_user c \<noteq> u"
  shows "CommentViews_destroy s req pk = (Response (Error ''Not authorized'') 403, s)"
  by (simp add: CommentViews_destroy_def run_caller [OF assms(1,2)] assms(3,4))



lemma BlogViews_create_caller:
  assumes "auth req = Some u" and "u \<in> set (map u_id (users s))"
  shows "BlogViews_create s req =
    (case BlogSerializer_is_valid s False (data req) of
       Inl e \<Rightarrow> (handle_exception e, s)
     | Inr vd \<Rightarrow>
         (let b = \<lparr>b_id = blog_seq s + 1,
                    b_title = text_or_default (ba_title vd),
                    b_description = text_or_default (ba_description vd),
                    b_author = u,
                    b_publish_date = now req,
                    b_image = (case ba_image vd of None \<Rightarrow> None | Some i \<Rightarrow> i)\<rparr>
          in (Response (BlogData b) 201,
              s\<lparr>blogs := blogs s @ [b], blog_seq := blog_seq s + 1\<rparr>)))"
  by (simp add: BlogViews_create_def run_caller [OF assms] BlogViews_perform_create_def
      Blog_objects_create_def Let_def split: sum.splits)

lemma CommentViews_create_caller:
  assumes "auth req = Some u" and "u \<in> set (map u_id (users s))"
  shows "CommentViews_create s req =
    (case CommentSerializer_is_valid s False (data req) of
       Inl e \<Rightarrow> (handle_exception e, s)
     | Inr vd \<Rightarrow>
         (case ca_post vd of
            None \<Rightarrow> (handle_exception IntegrityError, s)
          | Some p \<Rightarrow>
              (let c = \<lparr>c_id = comment_seq s + 1, c_user = u, c_post = p,
                         c_comment = text_or_default (ca_comment vd), c_time = now req\<rparr>
               in (Response (CommentData c) 201,
                   s\<lparr>comments := comments s @ [c], comment_seq := comment_seq s + 1\<rparr>))))"
  by (simp add: CommentViews_create_def run_caller [OF assms] CommentViews_perform_create_def
      Comment_objects_create_def Let_def split: sum.splits option.splits)

text \<open>
  Whatever the request, a registration that succeeds stores the text of the password of
  the body, stripped of surrounding whitespace and otherwise unchanged.
\<close>

lemma handle_exception_created: "handle_exception e \<noteq> Response b 201"
  by (cases e) simp_all

lemma UserViews_create_stores_password:
  assumes "UserViews_create s req = (Response b 201, s')"
    and "data req ''password'' = Some (PStr raw)"
  shows "\<exists>u. users s' = users s @ [u] \<and> u_password u = py_strip raw"
proof -
  from assms(1) obtain vd u where
    v: "UserSerializer_is_valid s None False (data req) = Inr vd"
    and c: "UserSerializer_create s vd = Inr (u, s')"
    by (auto simp: UserViews_create_def handle_exception_created
        split: sum.splits prod.splits)
  from v assms(2) have "ua_password vd = Some (py_strip raw)"
    by (auto simp: UserSerializer_is_valid_def Let_def CharField_def CharField_validate_def
        errors_of_def value_of_def split: if_splits)
  with c show ?thesis
    by (auto simp: UserSerializer_create_def CustomUser_objects_create_def Let_def
        text_or_default_def split: if_splits)
qed

subsection \<open>The example data, evaluated\<close>

lemma CommentSerializer_full:
  "CommentSerializer_is_valid commented_db False
     [''comment'' \<mapsto> PStr ''edited'', ''user'' \<mapsto> PInt 1, ''post'' \<mapsto> PInt 11]
   = Inr \<lparr>ca_comment = Some ''edited'', ca_user = Some 1, ca_post = Some 11\<rparr>"
  by (simp add: CommentSerializer_is_valid_def CharField_def CharField_validate_def py_strip_def
      py_isspace_def PrimaryKeyRelatedField_def errors_of_def value_of_def commented_db_def
      example_db_def user_a_def user_b_def post_p_def post_q_def)

lemma get_comment_1: "get_object c_id (comments commented_db) 1 = Inr comment_1"
  by (simp add: get_object_def commented_db_def comment_1_def comment_2_def)

lemma CommentSerializer_PInt:
  assumes "CommentSerializer_is_valid s partial d = Inr vd"
  shows "(d ''user'' = Some (PInt n) \<longrightarrow> ca_user vd = Some n)
       \<and> (d ''post'' = Some (PInt m) \<longrightarrow> ca_post vd = Some m)"
  using assms
  by (auto simp: CommentSerializer_is_valid_def Let_def PrimaryKeyRelatedField_def
      errors_of_def value_of_def split: if_splits)

lemma register_a_valid:
  "UserSerializer_is_valid empty_db None False (data register_a)
   = Inr \<lparr>ua_password = Some ''secret-a'', ua_username = Some ''a'', ua_phone = Some ''100''\<rparr>"
  by (simp add: UserSerializer_is_valid_def register_a_def CharField_def CharField_validate_def
      py_strip_def py_isspace_def username_field_def username_char_def unique_field_def
      errors_of_def value_of_def empty_db_def)

lemma register_a_result:
  "UserViews_create empty_db register_a
   = (Response (UserData 1 ''a'' ''100'') 201, registered_db)"
proof -
  have a: "auth register_a = None" by (simp add: register_a_def)
  have e: "users empty_db = []" "user_seq empty_db = 0" by (simp_all add: empty_db_def)
  show ?thesis
    by (simp add: UserViews_create_def register_a_valid initial_def request_user_def a e
      UserViews_get_permissions_def UserSerializer_create_def CustomUser_objects_create_def
      text_or_default_def user_a_def registered_db_def Let_def)
qed

lemma login_a_result:
  "UserViews_login example_settings registered_db login_a
   = Response (Error ''Invalid credentials'') 401"
  by (simp add: UserViews_login_def initial_def request_user_def UserViews_get_permissions_def
      login_a_def dict_get_def authenticate_def py_str_def registered_db_def user_a_def
      example_settings_def Let_def)

lemma create_post_1_valid:
  "BlogSerializer_is_valid registered_db False (data create_post_1)
   = Inr \<lparr>ba_title = Some ''P'', ba_description = Some ''first post'', ba_image = None,
           ba_author = Some 1\<rparr>"
  by (simp add: BlogSerializer_is_valid_def create_post_1_def request_by_def CharField_def
      CharField_validate_def py_strip_def py_isspace_def PrimaryKeyRelatedField_def
      ImageField_def errors_of_def value_of_def registered_db_def user_a_def)

lemma create_post_1_result:
  "BlogViews_create registered_db create_post_1 = (Response (BlogData post_1) 201, posted_db)"
proof -
  have a: "auth create_post_1 = Some 1" "now create_post_1 = 50"
    by (simp_all add: create_post_1_def request_by_def)
  have m: "1 \<in> set (map u_id (users registered_db))"
    by (simp add: registered_db_def user_a_def)
  have e: "blogs registered_db = []" "blog_seq registered_db = 0"
    by (simp_all add: registered_db_def empty_db_def)
  show ?thesis
    by (simp add: BlogViews_create_caller [OF a(1) m] create_post_1_valid Let_def
        text_or_default_def a(2) e post_1_def posted_db_def)
qed

lemma first_like_result:
  "BlogViews_like posted_db (request_by 1 Map.empty 60) 1
   = (Response (Message ''Post liked'') 201, first_like_db)"
proof -
  have a: "auth (request_by 1 Map.empty 60) = Some 1" by (simp add: request_by_def)
  have m: "1 \<in> set (map u_id (users posted_db))"
    by (simp add: posted_db_def registered_db_def user_a_def)
  have p: "1 \<in> set (map b_id (blogs posted_db))" by (simp add: posted_db_def post_1_def)
  have n: "\<not> Like_exists posted_db 1 1"
    by (simp add: Like_exists_def posted_db_def registered_db_def empty_db_def)
  show ?thesis
    using n
    by (simp add: BlogViews_like_caller [OF a m p] first_like_db_def)
       (simp add: posted_db_def registered_db_def empty_db_def request_by_def)
qed

lemma reachable_first_like: "reachable first_like_db"
proof -
  have "reachable (snd (UserViews_create empty_db register_a))"
    by (rule reachable.user_create [OF reachable.init])
  then have "reachable registered_db" by (simp add: register_a_result)
  then have "reachable (snd (BlogViews_create registered_db create_post_1))"
    by (rule reachable.blog_create)
  then have "reachable posted_db" by (simp add: create_post_1_result)
  then have "reachable (snd (BlogViews_like posted_db (request_by 1 Map.empty 60) 1))"
    by (rule reachable.blog_like)
  then show ?thesis by (simp add: first_like_result)
qed



subsection \<open>The order of the comments\<close>

lemma comments_inv_same:
  "comments_inv s \<Longrightarrow> comments s' = comments s \<Longrightarrow> comment_seq s' = comment_seq s
   \<Longrightarrow> comments_inv s'"
  by (simp add: comments_inv_def)

lemma sorted_wrt_map_filter:
  "sorted_wrt R (map f xs) \<Longrightarrow> sorted_wrt R (map f (filter P xs))"
  by (induction xs) auto

lemma comments_inv_filter:
  "comments_inv s \<Longrightarrow> comments s' = filter P (comments s)
   \<Longrightarrow> comment_seq s' = comment_seq s \<Longrightarrow> comments_inv s'"
  by (simp add: comments_inv_def sorted_wrt_map_filter)

lemma replace_row_keys: "map key (replace_row key r rows) = map key rows"
  by (induction rows) (simp_all add: replace_row_Nil replace_row_Cons)

lemma comments_inv_create:
  assumes "comments_inv s" and "Comment_objects_create s vd t = Inr (c, s')"
  shows "comments_inv s'"
proof -
  from assms(2) obtain u p where
    s': "s' = s\<lparr>comments := comments s @ [c], comment_seq := comment_seq s + 1\<rparr>"
    and c: "c_id c = comment_seq s + 1"
    by (auto simp: Comment_objects_create_def Let_def split: option.splits)
  from assms(1) have b: "\<forall>x \<in> set (comments s). c_id x \<le> comment_seq s"
    and o: "sorted_wrt (<) (map c_id (comments s))"
    by (simp_all add: comments_inv_def)
  from b c have "\<forall>x \<in> set (comments s). c_id x < c_id c" by auto
  with o b c show ?thesis
    by (auto simp: s' comments_inv_def sorted_wrt_append)
qed

lemma comments_inv_update:
  assumes "comments_inv s" and "Comment_update s instance vd t = (c, s')"
  shows "comments_inv s'"
proof -
  from assms(2) have s': "s' = s\<lparr>comments := replace_row c_id c (comments s)\<rparr>"
    by (auto simp: Comment_update_def Let_def)
  have k: "map c_id (replace_row c_id c (comments s)) = map c_id (comments s)"
    by (rule replace_row_keys)
  have "\<forall>x \<in> set (replace_row c_id c (comments s)). c_id x \<le> comment_seq s"
  proof
    fix x assume "x \<in> set (replace_row c_id c (comments s))"
    then have "c_id x \<in> set (map c_id (replace_row c_id c (comments s)))" by simp
    then have "c_id x \<in> set (map c_id (comments s))" unfolding k .
    with assms(1) show "c_id x \<le> comment_seq s" by (auto simp: comments_inv_def)
  qed
  with assms(1) k show ?thesis by (simp add: s' comments_inv_def)
qed

lemma comments_inv_comment_create:
  "comments_inv s \<Longrightarrow> comments_inv (snd (CommentViews_create s req))"
  unfolding CommentViews_create_def
  by (rule run_preserves)
     (auto simp: CommentViews_perform_create_def split: sum.splits prod.splits
       dest: comments_inv_create)

lemma comments_inv_comment_update:
  "comments_inv s \<Longrightarrow> comments_inv (snd (CommentViews_update s req pk partial))"
  unfolding CommentViews_update_def
  by (rule run_preserves)
     (auto simp: ModelViewSet_update_comment_def split: sum.splits prod.splits if_splits
       dest: comments_inv_update)

lemma comments_inv_comment_destroy:
  "comments_inv s \<Longrightarrow> comments_inv (snd (CommentViews_destroy s req pk))"
  unfolding CommentViews_destroy_def
  by (rule run_preserves)
     (auto simp: ModelViewSet_destroy_comment_def Comment_delete_def
       split: sum.splits prod.splits if_splits elim: comments_inv_filter)

lemma comments_inv_blog_destroy:
  "comments_inv s \<Longrightarrow> comments_inv (snd (BlogViews_destroy s req pk))"
  unfolding BlogViews_destroy_def
  by (rule run_preserves)
     (auto simp: Blog_delete_def split: sum.splits elim: comments_inv_filter)

lemma comments_inv_user_destroy:
  "comments_inv s \<Longrightarrow> comments_inv (snd (UserViews_destroy s req pk))"
  unfolding UserViews_destroy_def
  by (rule run_preserves)
     (auto simp: CustomUser_delete_def Let_def split: sum.splits elim: comments_inv_filter)

lemma comments_inv_blog_create:
  "comments_inv s \<Longrightarrow> comments_inv (snd (BlogViews_create s req))"
  unfolding BlogViews_create_def
  by (rule run_preserves)
     (auto simp: BlogViews_perform_create_def Blog_objects_create_def Let_def
       split: sum.splits prod.splits option.splits elim: comments_inv_same)

lemma comments_inv_blog_update:
  "comments_inv s \<Longrightarrow> comments_inv (snd (BlogViews_update s req pk partial))"
  unfolding BlogViews_update_def
  by (rule run_preserves)
     (auto simp: Blog_update_def Let_def split: sum.splits prod.splits elim: comments_inv_same)

lemma comments_inv_like:
  "comments_inv s \<Longrightarrow> comments_inv (snd (BlogViews_like s req pk))"
  unfolding BlogViews_like_def
  by (rule run_preserves)
     (auto simp: Like_filter_delete_def Like_objects_create_def Let_def
       split: sum.splits prod.splits if_splits elim: comments_inv_same)

lemma comments_inv_like_create:
  "comments_inv s \<Longrightarrow> comments_inv (snd (LikeViews_create s req))"
  unfolding LikeViews_create_def
  by (rule run_preserves)
     (auto simp: ModelViewSet_create_like_def LikeViews_perform_create_def
       Like_objects_create_def Let_def
       split: sum.splits prod.splits if_splits option.splits elim: comments_inv_same)

lemma comments_inv_like_update:
  "comments_inv s \<Longrightarrow> comments_inv (snd (LikeViews_update s req pk partial))"
  unfolding LikeViews_update_def
  by (rule run_preserves)
     (auto simp: Like_update_def Let_def split: sum.splits prod.splits if_splits
       elim: comments_inv_same)

lemma comments_inv_like_destroy:
  "comments_inv s \<Longrightarrow> comments_inv (snd (LikeViews_destroy s req pk))"
  unfolding LikeViews_destroy_def
  by (rule run_preserves)
     (auto simp: Like_delete_def split: sum.splits elim: comments_inv_same)

lemma comments_inv_user_create:
  "comments_inv s \<Longrightarrow> comments_inv (snd (UserViews_create s req))"
  by (auto simp: UserViews_create_def UserSerializer_create_def CustomUser_objects_create_def
      Let_def split: sum.splits prod.splits if_splits elim: comments_inv_same)

lemma comments_inv_user_update:
  "comments_inv s \<Longrightarrow> comments_inv (snd (UserViews_update s req pk partial))"
  unfolding UserViews_update_def
  by (rule run_preserves)
     (auto simp: CustomUser_update_def Let_def split: sum.splits prod.splits if_splits
       elim: comments_inv_same)

lemma comments_inv_logout:
  "comments_inv s \<Longrightarrow> comments_inv (snd (UserViews_logout cfg s req))"
  unfolding UserViews_logout_def
  by (rule run_preserves)
     (auto simp: blacklist_def Let_def split: sum.splits prod.splits if_splits
       elim: comments_inv_same)

lemma comments_inv_empty: "comments_inv empty_db"
  by (simp add: comments_inv_def empty_db_def)

lemma reachable_comments_inv: "reachable s \<Longrightarrow> comments_inv s"
  by (induction rule: reachable.induct)
     (simp_all add: comments_inv_empty comments_inv_user_create comments_inv_user_update
       comments_inv_user_destroy comments_inv_logout comments_inv_blog_create
       comments_inv_blog_update comments_inv_blog_destroy comments_inv_like
       comments_inv_comment_create comments_inv_comment_update comments_inv_comment_destroy
       comments_inv_like_create comments_inv_like_update comments_inv_like_destroy)

subsection \<open>The create views, for a body that the serializer accepts\<close>





subsection \<open>The run from the empty database, continued\<close>

lemmas run_dbs = first_like_db_def posted_db_def registered_db_def empty_db_def user_a_def
  post_1_def

lemmas field_defs = CharField_def CharField_validate_def py_strip_def py_isspace_def
  PrimaryKeyRelatedField_def errors_of_def value_of_def

lemma first_comment_result:
  "CommentViews_create first_like_db first_comment
   = (Response (CommentData comment_one) 201, one_comment_db)"
proof -
  have a: "auth first_comment = Some 1" "now first_comment = 70"
    by (simp_all add: first_comment_def request_by_def)
  have m: "1 \<in> set (map u_id (users first_like_db))" by (simp add: run_dbs)
  have v: "CommentSerializer_is_valid first_like_db False (data first_comment)
     = Inr \<lparr>ca_comment = Some ''one'', ca_user = Some 1, ca_post = Some 1\<rparr>"
    by (simp add: CommentSerializer_is_valid_def field_defs first_comment_def request_by_def
        run_dbs)
  have e: "comments first_like_db = []" "comment_seq first_like_db = 0"
    by (simp_all add: run_dbs)
  show ?thesis
    by (simp add: CommentViews_create_caller [OF a(1) m] v Let_def text_or_default_def a(2) e
        comment_one_def one_comment_db_def)
qed

lemma second_comment_result:
  "CommentViews_create one_comment_db second_comment
   = (Response (CommentData comment_two) 201, two_comments_db)"
proof -
  have a: "auth second_comment = Some 1" "now second_comment = 80"
    by (simp_all add: second_comment_def request_by_def)
  have m: "1 \<in> set (map u_id (users one_comment_db))"
    by (simp add: one_comment_db_def run_dbs)
  have v: "CommentSerializer_is_valid one_comment_db False (data second_comment)
     = Inr \<lparr>ca_comment = Some ''two'', ca_user = Some 1, ca_post = Some 1\<rparr>"
    by (simp add: CommentSerializer_is_valid_def field_defs second_comment_def request_by_def
        one_comment_db_def run_dbs)
  have e: "comments one_comment_db = [comment_one]" "comment_seq one_comment_db = 1"
    by (simp_all add: one_comment_db_def)
  have "CommentViews_create one_comment_db second_comment
      = (Response (CommentData comment_two) 201,
         one_comment_db\<lparr>comments := [comment_one, comment_two], comment_seq := 2\<rparr>)"
    by (simp add: CommentViews_create_caller [OF a(1) m] v Let_def text_or_default_def a(2) e
        comment_two_def)
  then show ?thesis by (simp add: two_comments_db_def one_comment_db_def)
qed

lemma edit_first_comment_result:
  "CommentViews_update two_comments_db edit_first_comment 1 False
   = (Response (CommentData comment_one_edited) 200, discussed_db)"
proof -
  have a: "auth edit_first_comment = Some 1"
    by (simp add: edit_first_comment_def request_by_def)
  have m: "1 \<in> set (map u_id (users two_comments_db))"
    by (simp add: two_comments_db_def run_dbs)
  have g: "get_object c_id (comments two_comments_db) 1 = Inr comment_one"
    by (simp add: get_object_def two_comments_db_def comment_one_def)
  have o: "c_user comment_one = 1" by (simp add: comment_one_def)
  have v: "CommentSerializer_is_valid two_comments_db False (data edit_first_comment)
     = Inr \<lparr>ca_comment = Some ''one, edited'', ca_user = Some 1, ca_post = Some 1\<rparr>"
    by (simp add: CommentSerializer_is_valid_def field_defs edit_first_comment_def
        request_by_def two_comments_db_def run_dbs)
  have upd: "Comment_update two_comments_db comment_one
       \<lparr>ca_comment = Some ''one, edited'', ca_user = Some 1, ca_post = Some 1\<rparr>
       (now edit_first_comment)
     = (comment_one_edited, discussed_db)"
    by (simp add: Comment_update_def Let_def or_else_def replace_row_def two_comments_db_def
        discussed_db_def comment_one_def comment_two_def comment_one_edited_def
        edit_first_comment_def request_by_def)
  show ?thesis
    by (simp add: CommentViews_update_owner [OF a m g o] v upd)
qed

lemma reachable_discussed: "reachable discussed_db"
proof -
  have "reachable (snd (CommentViews_create first_like_db first_comment))"
    by (rule reachable.comment_create [OF reachable_first_like])
  then have "reachable one_comment_db" by (simp add: first_comment_result)
  then have "reachable (snd (CommentViews_create one_comment_db second_comment))"
    by (rule reachable.comment_create)
  then have "reachable two_comments_db" by (simp add: second_comment_result)
  then have "reachable (snd (CommentViews_update two_comments_db edit_first_comment 1 False))"
    by (rule reachable.comment_update)
  then show ?thesis by (simp add: edit_first_comment_result)
qed




section \<open>The claims\<close>

text \<open>
  Claim C1. For an authenticated caller \<open>u\<close> and an existing post \<open>pk\<close>, the \<open>like\<close>
  action removes the likes of \<open>(u, pk)\<close> and answers 200 when such a like exists;
  otherwise it appends exactly one like of \<open>(u, pk)\<close>, stamped with the time of the
  request, and answers 201.
\<close>

theorem toggle_like:
  assumes "auth req = Some u" and "u \<in> set (map u_id (users s))"
    and "pk \<in> set (map b_id (blogs s))"
  shows "(Like_exists s u pk \<longrightarrow>
            BlogViews_like s req pk =
              (Response (Message ''Like removed'') 200,
               s\<lparr>likes := filter (\<lambda>l. \<not> (l_user l = u \<and> l_post l = pk)) (likes s)\<rparr>))
       \<and> (\<not> Like_exists s u pk \<longrightarrow>
            BlogViews_like s req pk =
              (Response (Message ''Post liked'') 201,
               s\<lparr>likes := likes s @ [\<lparr>l_id = like_seq s + 1, l_user = u, l_post = pk,
                                       l_time = now req\<rparr>],
                 like_seq := like_seq s + 1\<rparr>))"
  by (simp add: BlogViews_like_caller [OF assms])

text \<open>
  Both branches on the example: \<open>b\<close> likes the post \<open>P\<close>, then toggles again.
\<close>

theorem toggle_like_witness:
  "BlogViews_like example_db (request_by 2 Map.empty 60) 10 =
     (Response (Message ''Post liked'') 201, liked_db)
   \<and> BlogViews_like (liked_db)
        (request_by 2 Map.empty 70) 10 =
     (Response (Message ''Like removed'') 200, example_db\<lparr>likes := [], like_seq := 1\<rparr>)"
  using toggle_like [of "request_by 2 Map.empty 60" 2 example_db 10]
    toggle_like [of "request_by 2 Map.empty 70" 2
      "liked_db" 10]
  by (simp add: liked_db_def example_db_def request_by_def user_a_def user_b_def post_p_def post_q_def like_of_b_def
      Like_exists_def)

text \<open>
  Claim C2. Every reachable state holds at most one like per \<open>(user, post)\<close>, and both
  the \<open>like\<close> action and the creation of a like through the collection keep it so.
\<close>

theorem likes_unique_invariant:
  "(reachable s \<longrightarrow> likes_unique s)
   \<and> (likes_unique s \<longrightarrow>
        likes_unique (snd (BlogViews_like s req pk))
        \<and> likes_unique (snd (LikeViews_create s req')))"
  using reachable_likes_inv [of s]
  by (simp add: likes_inv_def likes_unique_like likes_unique_create_view)

text \<open>
  The state reached from the empty database when \<open>a\<close> registers, creates a post and
  likes it holds that one like; and both views keep the likes of the example unique.
\<close>

theorem likes_unique_invariant_witness:
  "reachable first_like_db
   \<and> likes first_like_db = [\<lparr>l_id = 1, l_user = 1, l_post = 1, l_time = 60\<rparr>]
   \<and> likes_unique first_like_db
   \<and> likes_unique liked_db
   \<and> likes_unique (snd (BlogViews_like liked_db (request_by 1 Map.empty 70) 10))
   \<and> likes_unique (snd (LikeViews_create liked_db
        (request_by 1 [''user'' \<mapsto> PInt 1, ''post'' \<mapsto> PInt 10] 70)))"
proof -
  have u: "likes_unique liked_db"
    by (simp add: likes_unique_def liked_db_def)
  have l: "likes first_like_db = [\<lparr>l_id = 1, l_user = 1, l_post = 1, l_time = 60\<rparr>]"
    by (simp add: first_like_db_def)
  from likes_unique_invariant [of first_like_db] reachable_first_like
  have a: "likes_unique first_like_db" by simp
  from likes_unique_invariant [of liked_db "request_by 1 Map.empty 70" 10
      "request_by 1 [''user'' \<mapsto> PInt 1, ''post'' \<mapsto> PInt 10] 70"] u
  have b: "likes_unique (snd (BlogViews_like liked_db (request_by 1 Map.empty 70) 10))
   \<and> likes_unique (snd (LikeViews_create liked_db
        (request_by 1 [''user'' \<mapsto> PInt 1, ''post'' \<mapsto> PInt 10] 70)))" by simp
  from reachable_first_like l a u b show ?thesis by simp
qed

text \<open>
  Claim C3. When the caller already likes the post that the body names, creating a like
  through the collection answers 400 and leaves the database unchanged.
\<close>

theorem like_create_duplicate:
  assumes "auth req = Some u" and "u \<in> set (map u_id (users s))"
    and "get_prep_value (dict_get (data req) ''post'') = Inr (Some p)"
    and "Like_exists s u p"
  shows "LikeViews_create s req =
           (Response (Error ''You have already liked this post'') 400, s)"
  by (simp add: LikeViews_create_def run_caller [OF assms(1,2)] Like_filter_exists_def
      assms(3,4))

text \<open>
  On the example: \<open>b\<close> already likes \<open>P\<close> and posts a second like of it.
\<close>

theorem like_create_duplicate_witness:
  "LikeViews_create (liked_db)
     (request_by 2 [''user'' \<mapsto> PInt 2, ''post'' \<mapsto> PInt 10] 80) =
   (Response (Error ''You have already liked this post'') 400,
    liked_db)"
  using like_create_duplicate [of "request_by 2 [''user'' \<mapsto> PInt 2, ''post'' \<mapsto> PInt 10] 80"
      2 "liked_db" 10]
  by (simp add: liked_db_def example_db_def request_by_def user_a_def user_b_def like_of_b_def
      Like_exists_def get_prep_value_def dict_get_def)

text \<open>
  Claim C4, as amended. For an authenticated caller and an existing comment: when the
  caller is not the comment's user, update and delete answer 403 and change nothing;
  when the caller is the comment's user, delete removes the comment and answers 204,
  and update answers 200 with the comment rewritten when the serializer accepts the
  body, and 400 with nothing changed when the serializer rejects it.
\<close>

theorem comment_owner_only:
  assumes "auth req = Some u" and "u \<in> set (map u_id (users s))"
    and "get_object c_id (comments s) pk = Inr c"
  shows "(c_user c \<noteq> u \<longrightarrow>
            CommentViews_update s req pk partial = (Response (Error ''Not authorized'') 403, s)
            \<and> CommentViews_destroy s req pk = (Response (Error ''Not authorized'') 403, s))
       \<and> (c_user c = u \<longrightarrow>
            CommentViews_destroy s req pk =
              (Response NoContent 204,
               s\<lparr>comments := filter (\<lambda>x. c_id x \<noteq> pk) (comments s)\<rparr>)
            \<and> (\<forall>vd. CommentSerializer_is_valid s partial (data req) = Inr vd \<longrightarrow>
                 CommentViews_update s req pk partial =
                   (Response (CommentData (fst (Comment_update s c vd (now req)))) 200,
                    snd (Comment_update s c vd (now req))))
            \<and> (\<forall>e. CommentSerializer_is_valid s partial (data req) = Inl e \<longrightarrow>
                 status_code (fst (CommentViews_update s req pk partial)) = 400
                 \<and> snd (CommentViews_update s req pk partial) = s))"
proof (intro conjI impI allI)
  assume "c_user c \<noteq> u"
  then show "CommentViews_update s req pk partial = (Response (Error ''Not authorized'') 403, s)"
    by (rule CommentViews_update_other [OF assms])
next
  assume "c_user c \<noteq> u"
  then show "CommentViews_destroy s req pk = (Response (Error ''Not authorized'') 403, s)"
    by (rule CommentViews_destroy_other [OF assms])
next
  assume "c_user c = u"
  then show "CommentViews_destroy s req pk =
     (Response NoContent 204, s\<lparr>comments := filter (\<lambda>x. c_id x \<noteq> pk) (comments s)\<rparr>)"
    by (rule CommentViews_destroy_owner [OF assms])
next
  fix vd
  assume "c_user c = u" and "CommentSerializer_is_valid s partial (data req) = Inr vd"
  then show "CommentViews_update s req pk partial =
     (Response (CommentData (fst (Comment_update s c vd (now req)))) 200,
      snd (Comment_update s c vd (now req)))"
    by (simp add: CommentViews_update_owner [OF assms])
next
  fix e
  assume o: "c_user c = u" and v: "CommentSerializer_is_valid s partial (data req) = Inl e"
  from CommentSerializer_error [OF v] obtain fs where "e = ValidationError fs" ..
  with o v show "status_code (fst (CommentViews_update s req pk partial)) = 400"
    by (simp add: CommentViews_update_owner [OF assms])
next
  fix e
  assume "c_user c = u" and "CommentSerializer_is_valid s partial (data req) = Inl e"
  then show "snd (CommentViews_update s req pk partial) = s"
    by (simp add: CommentViews_update_owner [OF assms])
qed

text \<open>
  On the example: \<open>a\<close> may neither update nor delete the comment of \<open>b\<close>; \<open>b\<close> deletes
  it, or updates its text, and an update of \<open>b\<close> with a blank text is a validation error.
\<close>

theorem comment_owner_only_witness:
  "CommentViews_update commented_db
     (request_by 1 [''comment'' \<mapsto> PStr ''edited'', ''user'' \<mapsto> PInt 1, ''post'' \<mapsto> PInt 11] 90)
     1 False = (Response (Error ''Not authorized'') 403, commented_db)
   \<and> CommentViews_destroy commented_db (request_by 1 Map.empty 90) 1
       = (Response (Error ''Not authorized'') 403, commented_db)
   \<and> CommentViews_destroy commented_db (request_by 2 Map.empty 90) 1
       = (Response NoContent 204, commented_db\<lparr>comments := [comment_2]\<rparr>)
   \<and> CommentViews_update commented_db
     (request_by 2 [''comment'' \<mapsto> PStr ''edited'', ''user'' \<mapsto> PInt 2, ''post'' \<mapsto> PInt 10] 90)
     1 False
     = (Response (CommentData (comment_1\<lparr>c_comment := ''edited'', c_time := 90\<rparr>)) 200,
        commented_db\<lparr>comments := [comment_1\<lparr>c_comment := ''edited'', c_time := 90\<rparr>, comment_2]\<rparr>)
   \<and> status_code (fst (CommentViews_update commented_db
         (request_by 2 [''comment'' \<mapsto> PStr '' ''] 90) 1 False)) = 400"
proof -
  let ?other = "request_by 1 [''comment'' \<mapsto> PStr ''edited'', ''user'' \<mapsto> PInt 1, ''post'' \<mapsto> PInt 11] 90"
  let ?own = "request_by 2 [''comment'' \<mapsto> PStr ''edited'', ''user'' \<mapsto> PInt 2, ''post'' \<mapsto> PInt 10] 90"
  let ?bad = "request_by 2 [''comment'' \<mapsto> PStr '' ''] 90"
  have u: "auth ?other = Some 1" "auth (request_by 1 Map.empty 90) = Some 1"
    "auth (request_by 2 Map.empty 90) = Some 2" "auth ?own = Some 2" "auth ?bad = Some 2"
    by (simp_all add: request_by_def)
  have m: "1 \<in> set (map u_id (users commented_db))" "2 \<in> set (map u_id (users commented_db))"
    by (simp_all add: commented_db_def example_db_def user_a_def user_b_def)
  have o: "c_user comment_1 = 2" by (simp add: comment_1_def)
  have v: "CommentSerializer_is_valid commented_db False (data ?own)
     = Inr \<lparr>ca_comment = Some ''edited'', ca_user = Some 2, ca_post = Some 10\<rparr>"
    by (simp add: CommentSerializer_is_valid_def CharField_def CharField_validate_def
      py_strip_def py_isspace_def PrimaryKeyRelatedField_def errors_of_def value_of_def
      commented_db_def example_db_def user_a_def user_b_def post_p_def post_q_def
      request_by_def)
  have b: "CommentSerializer_is_valid commented_db False (data ?bad)
     = Inl (ValidationError [''comment'', ''user'', ''post''])"
    by (simp add: CommentSerializer_is_valid_def CharField_def CharField_validate_def
      py_strip_def py_isspace_def PrimaryKeyRelatedField_def errors_of_def value_of_def
      request_by_def)
  have upd: "Comment_update commented_db comment_1
       \<lparr>ca_comment = Some ''edited'', ca_user = Some 2, ca_post = Some 10\<rparr> (now ?own)
     = (comment_1\<lparr>c_comment := ''edited'', c_time := 90\<rparr>,
        commented_db\<lparr>comments := [comment_1\<lparr>c_comment := ''edited'', c_time := 90\<rparr>, comment_2]\<rparr>)"
    by (simp add: Comment_update_def Let_def or_else_def replace_row_def commented_db_def
        comment_1_def comment_2_def request_by_def)
  have del: "filter (\<lambda>x. c_id x \<noteq> 1) (comments commented_db) = [comment_2]"
    by (simp add: commented_db_def comment_1_def comment_2_def)
  note t1 = comment_owner_only [OF u(1) m(1) get_comment_1, of False]
  note t2 = comment_owner_only [OF u(2) m(1) get_comment_1, of False]
  note t3 = comment_owner_only [OF u(3) m(2) get_comment_1, of False]
  note t4 = comment_owner_only [OF u(4) m(2) get_comment_1, of False]
  note t5 = comment_owner_only [OF u(5) m(2) get_comment_1, of False]
  from t1 o have c1: "CommentViews_update commented_db ?other 1 False
      = (Response (Error ''Not authorized'') 403, commented_db)" by simp
  from t2 o have c2: "CommentViews_destroy commented_db (request_by 1 Map.empty 90) 1
       = (Response (Error ''Not authorized'') 403, commented_db)" by simp
  from t3 o del have c3: "CommentViews_destroy commented_db (request_by 2 Map.empty 90) 1
       = (Response NoContent 204, commented_db\<lparr>comments := [comment_2]\<rparr>)" by simp
  from t4 o v upd have c4: "CommentViews_update commented_db ?own 1 False
     = (Response (CommentData (comment_1\<lparr>c_comment := ''edited'', c_time := 90\<rparr>)) 200,
        commented_db\<lparr>comments := [comment_1\<lparr>c_comment := ''edited'', c_time := 90\<rparr>, comment_2]\<rparr>)"
    by simp
  from t5 o b have c5: "status_code (fst (CommentViews_update commented_db ?bad 1 False)) = 400"
    by simp
  from c1 c2 c3 c4 c5 show ?thesis by simp
qed

text \<open>
  Claim C4 as stated fails: the user \<open>b\<close> owns the first comment of the example and
  sends a full update whose body holds the new text only; the serializer misses the
  user and the post, the answer is 400 and the comment stays as it was.
\<close>

theorem comment_update_text_only_rejected:
  "auth edit_text_only = Some 2
   \<and> get_object c_id (comments commented_db) 1 = Inr comment_1
   \<and> c_user comment_1 = 2
   \<and> data edit_text_only = [''comment'' \<mapsto> PStr ''edited'']
   \<and> CommentViews_update commented_db edit_text_only 1 False
       = (Response (FieldErrors [''user'', ''post'']) 400, commented_db)"
proof -
  have a: "auth edit_text_only = Some 2" by (simp add: edit_text_only_def request_by_def)
  have m: "2 \<in> set (map u_id (users commented_db))"
    by (simp add: commented_db_def example_db_def user_a_def user_b_def)
  have o: "c_user comment_1 = 2" by (simp add: comment_1_def)
  have v: "CommentSerializer_is_valid commented_db False (data edit_text_only)
     = Inl (ValidationError [''user'', ''post''])"
    by (simp add: CommentSerializer_is_valid_def field_defs edit_text_only_def request_by_def)
  have "CommentViews_update commented_db edit_text_only 1 False
       = (Response (FieldErrors [''user'', ''post'']) 400, commented_db)"
    by (simp add: CommentViews_update_owner [OF a m get_comment_1 o] v)
  with a o get_comment_1 show ?thesis
    by (simp add: edit_text_only_def request_by_def)
qed

text \<open>
  Claim C5. The registration stores the password of the body as it is: the user \<open>a\<close>
  registers with the password \<open>secret-a\<close>, and the stored credential is that very
  string, not an encoding of it. The \<open>login\<close> action checks the password against the
  stored credential as a hash, so the same password does not log \<open>a\<close> in (with the
  stand-in hasher of the example settings, for which a credential is \<open>plain$\<close> followed
  by the password).
\<close>

theorem registration_stores_plaintext:
  "UserViews_create empty_db register_a
     = (Response (UserData 1 ''a'' ''100'') 201, registered_db)
   \<and> users registered_db = [user_a]
   \<and> data register_a ''password'' = Some (PStr (u_password user_a))
   \<and> data login_a ''password'' = data register_a ''password''
   \<and> UserViews_login example_settings registered_db login_a
     = Response (Error ''Invalid credentials'') 401"
  using register_a_result login_a_result
  by (simp add: registered_db_def register_a_def login_a_def user_a_def)

text \<open>
  Claim C6, as amended. An update of a comment by its owner, with a body that the
  serializer accepts, answers 200 and rewrites the rows with the comment's primary key:
  the primary key stays, every other row stays, the text, the user and the post take
  the validated values of the body (a partial update keeps a field that the body leaves
  out), so a user or a post that the body names is stored, and the timestamp becomes
  the time of the update.
\<close>

theorem comment_update_fields:
  assumes "auth req = Some u" and "u \<in> set (map u_id (users s))"
    and "get_object c_id (comments s) pk = Inr c" and "c_user c = u"
    and "CommentSerializer_is_valid s partial (data req) = Inr vd"
  shows "\<exists>c'. CommentViews_update s req pk partial =
           (Response (CommentData c') 200,
            s\<lparr>comments := map (\<lambda>x. if c_id x = pk then c' else x) (comments s)\<rparr>)
         \<and> c_id c' = c_id c
         \<and> c_comment c' = or_else (ca_comment vd) (c_comment c)
         \<and> c_user c' = or_else (ca_user vd) (c_user c)
         \<and> c_post c' = or_else (ca_post vd) (c_post c)
         \<and> c_time c' = now req
         \<and> (\<forall>n. data req ''user'' = Some (PInt n) \<longrightarrow> c_user c' = n)
         \<and> (\<forall>m. data req ''post'' = Some (PInt m) \<longrightarrow> c_post c' = m)"
proof -
  let ?c = "c\<lparr>c_comment := or_else (ca_comment vd) (c_comment c),
              c_user := or_else (ca_user vd) (c_user c),
              c_post := or_else (ca_post vd) (c_post c),
              c_time := now req\<rparr>"
  have k: "c_id c = pk" using get_object_Inr [OF assms(3)] by simp
  have upd: "Comment_update s c vd (now req) =
      (?c, s\<lparr>comments := map (\<lambda>x. if c_id x = pk then ?c else x) (comments s)\<rparr>)"
    by (simp add: Comment_update_def Let_def replace_row_def k)
  have view: "CommentViews_update s req pk partial =
      (Response (CommentData ?c) 200,
       s\<lparr>comments := map (\<lambda>x. if c_id x = pk then ?c else x) (comments s)\<rparr>)"
    by (simp add: CommentViews_update_owner [OF assms(1-4)] assms(5) upd)
  from CommentSerializer_PInt [OF assms(5)]
  have body: "(\<forall>n. data req ''user'' = Some (PInt n) \<longrightarrow> c_user ?c = n)
       \<and> (\<forall>m. data req ''post'' = Some (PInt m) \<longrightarrow> c_post ?c = m)"
    using CommentSerializer_PInt [OF assms(5)] by (simp add: or_else_def)
  show ?thesis
    by (rule exI [of _ ?c]) (use view body in simp)
qed

text \<open>
  On the example: \<open>b\<close> rewrites the first comment with the body that names the user
  \<open>a\<close> and the post \<open>Q\<close>.
\<close>

theorem comment_update_fields_witness:
  "CommentViews_update commented_db reassign_comment_1 1 False
   = (Response (CommentData reassigned_comment) 200,
      commented_db\<lparr>comments := [reassigned_comment, comment_2]\<rparr>)"
proof -
  have a: "auth reassign_comment_1 = Some 2"
    by (simp add: reassign_comment_1_def request_by_def)
  have m: "2 \<in> set (map u_id (users commented_db))"
    by (simp add: commented_db_def example_db_def user_a_def user_b_def)
  have o: "c_user comment_1 = 2" by (simp add: comment_1_def)
  have v: "CommentSerializer_is_valid commented_db False (data reassign_comment_1)
     = Inr \<lparr>ca_comment = Some ''edited'', ca_user = Some 1, ca_post = Some 11\<rparr>"
    using CommentSerializer_full by (simp add: reassign_comment_1_def request_by_def)
  from comment_update_fields [OF a m get_comment_1 o v]
  obtain c' where c': "CommentViews_update commented_db reassign_comment_1 1 False =
           (Response (CommentData c') 200,
            commented_db\<lparr>comments := map (\<lambda>x. if c_id x = 1 then c' else x)
               (comments commented_db)\<rparr>)"
      "c_id c' = c_id comment_1"
      "c_comment c' = or_else (Some ''edited'') (c_comment comment_1)"
      "c_user c' = or_else (Some 1) (c_user comment_1)"
      "c_post c' = or_else (Some 11) (c_post comment_1)"
      "c_time c' = now reassign_comment_1"
    by auto
  have "c' = reassigned_comment"
    using c'(2-6)
    by (cases c')
       (simp add: or_else_def comment_1_def reassign_comment_1_def request_by_def
         reassigned_comment_def)
  with c'(1) show ?thesis
    by (simp add: commented_db_def comment_1_def comment_2_def)
qed

text \<open>
  Claim C6 as stated fails: the first comment of the example belongs to \<open>b\<close>, stands
  under the post \<open>P\<close> and carries the time 60; after the full update of \<open>b\<close> at the
  time 90, with a body that names the user \<open>a\<close> and the post \<open>Q\<close>, its user, its post
  and its timestamp are all different.
\<close>

theorem comment_update_rewrites_user_post_time:
  "auth reassign_comment_1 = Some 2
   \<and> get_object c_id (comments commented_db) 1 = Inr comment_1
   \<and> c_user comment_1 = 2
   \<and> CommentViews_update commented_db reassign_comment_1 1 False
      = (Response (CommentData reassigned_comment) 200,
         commented_db\<lparr>comments := [reassigned_comment, comment_2]\<rparr>)
   \<and> c_user reassigned_comment \<noteq> c_user comment_1
   \<and> c_post reassigned_comment \<noteq> c_post comment_1
   \<and> c_time reassigned_comment \<noteq> c_time comment_1"
proof -
  have a: "auth reassign_comment_1 = Some 2"
    by (simp add: reassign_comment_1_def request_by_def)
  have m: "2 \<in> set (map u_id (users commented_db))"
    by (simp add: commented_db_def example_db_def user_a_def user_b_def)
  have o: "c_user comment_1 = 2" by (simp add: comment_1_def)
  have v: "CommentSerializer_is_valid commented_db False (data reassign_comment_1)
     = Inr \<lparr>ca_comment = Some ''edited'', ca_user = Some 1, ca_post = Some 11\<rparr>"
    using CommentSerializer_full by (simp add: reassign_comment_1_def request_by_def)
  have upd: "Comment_update commented_db comment_1
       \<lparr>ca_comment = Some ''edited'', ca_user = Some 1, ca_post = Some 11\<rparr>
       (now reassign_comment_1)
     = (reassigned_comment, commented_db\<lparr>comments := [reassigned_comment, comment_2]\<rparr>)"
    by (simp add: Comment_update_def Let_def or_else_def replace_row_def commented_db_def
        comment_1_def comment_2_def reassign_comment_1_def request_by_def
        reassigned_comment_def)
  have "CommentViews_update commented_db reassign_comment_1 1 False
      = (Response (CommentData reassigned_comment) 200,
         commented_db\<lparr>comments := [reassigned_comment, comment_2]\<rparr>)"
    by (simp add: CommentViews_update_owner [OF a m get_comment_1 o] v upd)
  then show ?thesis
    using a get_comment_1 by (simp add: comment_1_def reassigned_comment_def)
qed

text \<open>
  Claim C7, as amended. For an authenticated caller and an existing post, the
  \<open>comments\<close> action answers 200 with exactly the comments of that post, in the order
  of the table; in every reachable state that is the order of their creation: their
  primary keys, which the sequence hands out, ascend.
\<close>

theorem comments_listing:
  assumes "auth req = Some u" and "u \<in> set (map u_id (users s))"
    and "pk \<in> set (map b_id (blogs s))"
  shows "BlogViews_comments s req pk =
           Response (CommentRows (filter (\<lambda>c. c_post c = pk) (comments s))) 200
       \<and> (reachable s \<longrightarrow>
            sorted_wrt (<) (map c_id (filter (\<lambda>c. c_post c = pk) (comments s))))"
proof
  from get_object_exists [OF assms(3)] obtain blog
    where b: "get_object b_id (blogs s) pk = Inr blog" ..
  have k: "b_id blog = pk" using get_object_Inr [OF b] by simp
  show "BlogViews_comments s req pk =
           Response (CommentRows (filter (\<lambda>c. c_post c = pk) (comments s))) 200"
    by (simp add: BlogViews_comments_def initial_caller [OF assms(1,2)] b k)
next
  show "reachable s \<longrightarrow>
            sorted_wrt (<) (map c_id (filter (\<lambda>c. c_post c = pk) (comments s)))"
  proof
    assume "reachable s"
    then have "sorted_wrt (<) (map c_id (comments s))"
      using reachable_comments_inv by (simp add: comments_inv_def)
    then show "sorted_wrt (<) (map c_id (filter (\<lambda>c. c_post c = pk) (comments s)))"
      by (rule sorted_wrt_map_filter)
  qed
qed

text \<open>
  On the state reached when \<open>a\<close> writes two comments under the post and then rewrites
  the first: the listing has the first comment before the second, though the first now
  carries the later timestamp.
\<close>

theorem comments_listing_witness:
  "reachable discussed_db
   \<and> BlogViews_comments discussed_db (request_by 1 Map.empty 95) 1
       = Response (CommentRows [comment_one_edited, comment_two]) 200
   \<and> map c_id [comment_one_edited, comment_two] = [1, 2]
   \<and> map c_time [comment_one_edited, comment_two] = [90, 80]"
proof -
  have a: "auth (request_by 1 Map.empty 95) = Some 1" by (simp add: request_by_def)
  have m: "1 \<in> set (map u_id (users discussed_db))"
    by (simp add: discussed_db_def run_dbs)
  have p: "1 \<in> set (map b_id (blogs discussed_db))"
    by (simp add: discussed_db_def run_dbs)
  have f: "filter (\<lambda>c. c_post c = 1) (comments discussed_db)
      = [comment_one_edited, comment_two]"
    by (simp add: discussed_db_def comment_one_edited_def comment_two_def)
  from comments_listing [OF a m p] reachable_discussed f
  have "BlogViews_comments discussed_db (request_by 1 Map.empty 95) 1
       = Response (CommentRows [comment_one_edited, comment_two]) 200
     \<and> sorted_wrt (<) (map c_id [comment_one_edited, comment_two])" by simp
  with reachable_discussed show ?thesis
    by (simp add: comment_one_edited_def comment_two_def)
qed

text \<open>
  Claim C7 as stated fails: the post \<open>P\<close> of the example exists and has two comments,
  and the \<open>comments\<close> action answers a request without a token with 401 instead of
  the comments, since \<open>get_permissions\<close> opens \<open>list\<close> and \<open>retrieve\<close> only.
\<close>

theorem comments_listing_anonymous:
  "10 \<in> set (map b_id (blogs commented_db))
   \<and> filter (\<lambda>c. c_post c = 10) (comments commented_db) = [comment_1, comment_2]
   \<and> auth (anonymous Map.empty 95) = None
   \<and> BlogViews_comments commented_db (anonymous Map.empty 95) 10
       = Response (Detail ''Authentication credentials were not provided.'') 401"
  by (simp add: BlogViews_comments_def initial_def request_user_def
      BlogViews_get_permissions_def anonymous_def commented_db_def example_db_def
      post_p_def post_q_def comment_1_def comment_2_def)




text \<open>
  Claim C9. From a state in which the caller does not like the post, two toggles in a
  row answer 201 and then 200 and leave the table of likes as it was.
\<close>

theorem toggle_like_twice:
  assumes "auth req = Some u" and "auth req' = Some u"
    and "u \<in> set (map u_id (users s))" and "pk \<in> set (map b_id (blogs s))"
    and "\<not> Like_exists s u pk"
  shows "status_code (fst (BlogViews_like s req pk)) = 201
       \<and> status_code (fst (BlogViews_like (snd (BlogViews_like s req pk)) req' pk)) = 200
       \<and> likes (snd (BlogViews_like (snd (BlogViews_like s req pk)) req' pk)) = likes s"
proof -
  let ?l = "\<lparr>l_id = like_seq s + 1, l_user = u, l_post = pk, l_time = now req\<rparr>"
  let ?s1 = "s\<lparr>likes := likes s @ [?l], like_seq := like_seq s + 1\<rparr>"
  have first: "BlogViews_like s req pk = (Response (Message ''Post liked'') 201, ?s1)"
    using assms(5) by (simp add: BlogViews_like_caller [OF assms(1,3,4)])
  have u1: "u \<in> set (map u_id (users ?s1))" and p1: "pk \<in> set (map b_id (blogs ?s1))"
    using assms(3,4) by simp_all
  have ex: "Like_exists ?s1 u pk" by (simp add: Like_exists_def)
  have none: "\<forall>x \<in> set (likes s). \<not> (l_user x = u \<and> l_post x = pk)"
    using assms(5) by (simp add: Like_exists_def)
  have second: "BlogViews_like ?s1 req' pk =
      (Response (Message ''Like removed'') 200,
       ?s1\<lparr>likes := filter (\<lambda>l. \<not> (l_user l = u \<and> l_post l = pk)) (likes ?s1)\<rparr>)"
    using ex by (simp add: BlogViews_like_caller [OF assms(2) u1 p1])
  show ?thesis
    unfolding first using filter_none [OF none] second by simp
qed

text \<open>
  On the example the post has no like before, and none after the two toggles of \<open>b\<close>.
\<close>

theorem toggle_like_twice_witness:
  "status_code (fst (BlogViews_like example_db (request_by 2 Map.empty 60) 10)) = 201
   \<and> status_code (fst (BlogViews_like
        (snd (BlogViews_like example_db (request_by 2 Map.empty 60) 10))
        (request_by 2 Map.empty 70) 10)) = 200
   \<and> likes (snd (BlogViews_like
        (snd (BlogViews_like example_db (request_by 2 Map.empty 60) 10))
        (request_by 2 Map.empty 70) 10)) = []"
  using toggle_like_twice [of "request_by 2 Map.empty 60" 2 "request_by 2 Map.empty 70"
      example_db 10]
  by (simp add: example_db_def request_by_def user_a_def user_b_def post_p_def post_q_def Like_exists_def)

text \<open>
  Claim C10. With the token blacklist installed, the \<open>logout\<close> of any authenticated
  caller blacklists the refresh token of the body and answers 200, provided the token
  decodes, is of type \<open>refresh\<close>, has not expired and is not yet blacklisted. Nothing
  relates the user of the token to the caller.
\<close>

theorem logout_any_refresh_token:
  assumes "auth req = Some u" and "u \<in> set (map u_id (users s))"
    and "blacklist_installed cfg"
    and "data req ''refresh'' = Some (PStr t)" and "decode cfg t = Some c"
    and "token_type c = ''refresh''" and "now req < exp c"
    and "jti c \<notin> set (blacklisted s)"
  shows "UserViews_logout cfg s req =
           (Response (Message ''Logged out successfully'') 200,
            s\<lparr>blacklisted := blacklisted s @ [jti c]\<rparr>)"
  using assms(3-8)
  by (simp add: UserViews_logout_def run_caller [OF assms(1,2)] dict_get_def RefreshToken_def
      blacklist_def)

text \<open>
  On the example: the caller is \<open>b\<close>, the token was issued to \<open>a\<close>.
\<close>

theorem logout_any_refresh_token_witness:
  "user_id token_of_a = Some 1
   \<and> UserViews_logout example_settings example_db
        (request_by 2 [''refresh'' \<mapsto> PStr ''signed-j1''] 100)
      = (Response (Message ''Logged out successfully'') 200,
         example_db\<lparr>blacklisted := [''j1'']\<rparr>)"
  using logout_any_refresh_token [of "request_by 2 [''refresh'' \<mapsto> PStr ''signed-j1''] 100" 2
      example_db example_settings "''signed-j1''" token_of_a]
  by (simp add: request_by_def example_db_def user_a_def user_b_def example_settings_def
      token_of_a_def)

end
